theory Spec2Isabelle
  imports Main
begin

section \<open>Python strings\<close>

text \<open>
  A Python \<open>str\<close> is modelled as a HOL \<open>string\<close>: a list of characters, one per code
  point, for code points below 256. \<open>is_space\<close> is \<open>str.isspace\<close> on one character of
  that range: TAB, LF, VT, FF, CR, the separators 0x1C to 0x1F, SPACE, NEL (0x85) and
  NBSP (0xA0).
\<close>

definition is_space :: "char \<Rightarrow> bool" where
  "is_space c = (of_char c \<in> {9, 10, 11, 12, 13, 28, 29, 30, 31, 32, 133, 160 :: nat})"

text \<open>\<open>s.strip()\<close> with no argument removes leading and trailing whitespace.\<close>

definition lstrip :: "string \<Rightarrow> string" where
  "lstrip s = dropWhile is_space s"

definition rstrip :: "string \<Rightarrow> string" where
  "rstrip s = rev (dropWhile is_space (rev s))"

definition strip :: "string \<Rightarrow> string" where
  "strip s = rstrip (lstrip s)"

text \<open>\<open>sep.join(xs)\<close>: the items in order, \<open>sep\<close> between each two neighbours.\<close>

fun join :: "string \<Rightarrow> string list \<Rightarrow> string" where
  "join sep [] = []"
| "join sep [x] = x"
| "join sep (x # y # ys) = x @ sep @ join sep (y # ys)"

text \<open>
  Line 205 of \<open>Dictation.stop_recording\<close>:
  \<^verbatim>\<open>text = " ".join(segment.text.strip() for segment in segments)\<close>
  The argument is the list of the segments' texts in the order the engine emits them.
\<close>

definition transcript :: "string list \<Rightarrow> string" where
  "transcript segments = join '' '' (map strip segments)"


text \<open>
  \<open>upper\<close> and \<open>lower\<close> are \<open>str.upper\<close> and \<open>str.lower\<close> on ASCII letters; other
  characters are left as they are. \<open>contains sub s\<close> is \<open>sub in s\<close>, \<open>str_nat\<close> is
  \<open>str\<close> of a non-negative integer.
\<close>

definition upper_char :: "char \<Rightarrow> char" where
  "upper_char c =
     (let n = (of_char c :: nat) in if 97 \<le> n \<and> n \<le> 122 then char_of (n - 32) else c)"

definition lower_char :: "char \<Rightarrow> char" where
  "lower_char c =
     (let n = (of_char c :: nat) in if 65 \<le> n \<and> n \<le> 90 then char_of (n + 32) else c)"

definition upper :: "string \<Rightarrow> string" where
  "upper s = map upper_char s"

definition lower :: "string \<Rightarrow> string" where
  "lower s = map lower_char s"

fun starts_with :: "string \<Rightarrow> string \<Rightarrow> bool" where
  "starts_with [] s = True"
| "starts_with (a # sub) [] = False"
| "starts_with (a # sub) (c # s) = (a = c \<and> starts_with sub s)"

fun contains :: "string \<Rightarrow> string \<Rightarrow> bool" where
  "contains sub [] = (sub = [])"
| "contains sub (c # s) = (starts_with sub (c # s) \<or> contains sub s)"

fun str_nat :: "nat \<Rightarrow> string" where
  "str_nat n =
     (if n < 10 then [char_of (48 + n)]
      else str_nat (n div 10) @ [char_of (48 + n mod 10)])"

declare str_nat.simps [simp del]

section \<open>Exceptions\<close>

text \<open>
  The exceptions of the program are values: the class and the message (\<open>str(e)\<close>).
  All classes listed are subclasses of \<open>Exception\<close>.
\<close>

datatype exn_class =
    OSError | FileNotFoundError | ValueError | AttributeError | RuntimeError | MemoryError
  | ParsingError | InterpolationError

datatype exn = Exn exn_class string

fun str_exn :: "exn \<Rightarrow> string" where
  "str_exn (Exn c m) = m"

text \<open>How a call ends: it returns, it raises, or it never returns.\<close>

datatype outcome = Returned | Raised exn | Blocked

section \<open>Configuration: \<open>load_config\<close>\<close>

text \<open>
  \<open>configparser.ConfigParser\<close> after \<open>read\<close>: the options of the \<open>DEFAULT\<close> section and
  of each named section, option names already lower-cased by the parser.
  \<open>config_file\<close> is what \<open>load_config\<close> finds at \<open>CONFIG_PATH\<close>: no file, or a file on
  which \<open>config.read\<close> either raises (a parsing error) or yields the parsed content.
\<close>

record ini =
  defaults :: "string \<rightharpoonup> string"
  sections :: "string \<rightharpoonup> (string \<rightharpoonup> string)"

datatype config_file = Absent | Present "exn + ini"

definition empty_ini :: ini where
  "empty_ini = \<lparr>defaults = Map.empty, sections = Map.empty\<rparr>"

text \<open>
  \<open>ConfigParser._unify_values\<close>: the options visible in a section are its own over those
  of \<open>DEFAULT\<close>; a section that does not exist raises \<open>NoSectionError\<close>, here \<open>None\<close>.
\<close>

definition unify_values :: "ini \<Rightarrow> string \<Rightarrow> (string \<rightharpoonup> string) option" where
  "unify_values c section =
     (case sections c section of
        Some d \<Rightarrow> Some (defaults c ++ d)
      | None \<Rightarrow> if section = ''DEFAULT'' then Some (defaults c) else None)"

text \<open>
  \<open>BasicInterpolation.before_get\<close>: a value without \<open>%\<close> is returned as it is. What the
  library does with a value that has one (substitution, or an interpolation error) is the
  parameter \<open>interp\<close>.
\<close>

type_synonym interpolation = "(string \<rightharpoonup> string) \<Rightarrow> string \<Rightarrow> exn + string"

definition before_get :: "interpolation \<Rightarrow> (string \<rightharpoonup> string) \<Rightarrow> string \<Rightarrow> exn + string" where
  "before_get interp d v = (if CHR ''%'' \<in> set v then interp d v else Inr v)"

text \<open>
  \<open>config.get(section, option, fallback=fb)\<close>: the fallback stands in for a missing
  section and for a missing option, and for nothing else.
\<close>

definition get :: "interpolation \<Rightarrow> ini \<Rightarrow> string \<Rightarrow> string \<Rightarrow> string \<Rightarrow> exn + string" where
  "get interp c section option fb =
     (case unify_values c section of
        None \<Rightarrow> Inr fb
      | Some d \<Rightarrow>
          (case d (lower option) of
             None \<Rightarrow> Inr fb
           | Some v \<Rightarrow> before_get interp d v))"

text \<open>
  \<open>ConfigParser._convert_to_boolean\<close> with the library's \<open>BOOLEAN_STATES\<close>: any other
  value raises \<open>ValueError\<close>.
\<close>

definition convert_to_boolean :: "string \<Rightarrow> exn + bool" where
  "convert_to_boolean v =
     (let l = lower v in
      if l \<in> {''1'', ''yes'', ''true'', ''on''} then Inr True
      else if l \<in> {''0'', ''no'', ''false'', ''off''} then Inr False
      else Inl (Exn ValueError (''Not a boolean: '' @ v)))"

text \<open>
  \<open>config.getboolean(section, option, fallback=fb)\<close>: \<open>_get_conv\<close> catches
  \<open>NoSectionError\<close> and \<open>NoOptionError\<close> only; the conversion's \<open>ValueError\<close> passes.
\<close>

definition getboolean :: "interpolation \<Rightarrow> ini \<Rightarrow> string \<Rightarrow> string \<Rightarrow> bool \<Rightarrow> exn + bool" where
  "getboolean interp c section option fb =
     (case unify_values c section of
        None \<Rightarrow> Inr fb
      | Some d \<Rightarrow>
          (case d (lower option) of
             None \<Rightarrow> Inr fb
           | Some v \<Rightarrow>
               (case before_get interp d v of
                  Inl e \<Rightarrow> Inl e
                | Inr v' \<Rightarrow> convert_to_boolean v')))"

text \<open>
  The dictionary \<open>load_config\<close> returns. The fields carry the names of the module globals
  read from it: \<open>MODEL_SIZE\<close>, \<open>DEVICE\<close>, \<open>COMPUTE_TYPE\<close>, \<open>CONFIG['key']\<close>, \<open>AUTO_TYPE\<close>,
  \<open>NOTIFICATIONS\<close>.
\<close>

record config =
  model_size :: string
  device :: string
  compute_type :: string
  key :: string
  auto_type :: bool
  notifications :: bool

definition load_config :: "interpolation \<Rightarrow> config_file \<Rightarrow> exn + config" where
  "load_config interp file =
     (case (case file of Absent \<Rightarrow> Inr empty_ini | Present r \<Rightarrow> r) of
        Inl e \<Rightarrow> Inl e
      | Inr c \<Rightarrow>
     (case get interp c ''whisper'' ''model'' ''base.en'' of Inl e \<Rightarrow> Inl e | Inr m \<Rightarrow>
     (case get interp c ''whisper'' ''device'' ''cpu'' of Inl e \<Rightarrow> Inl e | Inr dv \<Rightarrow>
     (case get interp c ''whisper'' ''compute_type'' ''int8'' of Inl e \<Rightarrow> Inl e | Inr ct \<Rightarrow>
     (case get interp c ''hotkey'' ''key'' ''f12'' of Inl e \<Rightarrow> Inl e | Inr k \<Rightarrow>
     (case getboolean interp c ''behavior'' ''auto_type'' True of Inl e \<Rightarrow> Inl e | Inr a \<Rightarrow>
     (case getboolean interp c ''behavior'' ''notifications'' True of Inl e \<Rightarrow> Inl e | Inr n \<Rightarrow>
        Inr \<lparr>model_size = m, device = dv, compute_type = ct, key = k,
             auto_type = a, notifications = n\<rparr>)))))))"

section \<open>The controller: class \<open>Dictation\<close>\<close>

text \<open>
  The module globals the class reads: \<open>SESSION_TYPE\<close> and the resolved \<open>CONFIG\<close>.
\<close>

record globals =
  session_type :: string
  CONFIG :: config

text \<open>
  The fields of a \<open>Dictation\<close> object. A process handle is the process id, the
  temporary file object is its name, the loaded engine is a handle; \<open>None\<close> is \<open>None\<close>.
  \<open>model_loaded\<close> is the \<open>threading.Event\<close>: \<open>True\<close> once set.
\<close>

record dictation =
  recording :: bool
  record_process :: "nat option"
  temp_file :: "string option"
  model :: "nat option"
  model_loaded :: bool
  model_error :: "string option"
  running :: bool

text \<open>
  What the program does to its surroundings, in the order it does it. \<open>Popen\<close> is a
  capture process started and left running; \<open>Piped argv text\<close> is a process started and
  fed \<open>text\<close> on its input until it exits (\<open>Popen\<close> then \<open>communicate\<close>);
  \<open>Ran argv rc\<close> is \<open>subprocess.run\<close> returning with exit status \<open>rc\<close>;
  \<open>SpawnFailed\<close> is a process that could not be started. \<open>AwaitModel\<close> is the return of
  \<open>model_loaded.wait()\<close>, \<open>Transcribe m path\<close> the call of the engine \<open>m\<close> on \<open>path\<close>.
\<close>

datatype effect =
    Print string
  | MkTemp string
  | Popen "string list" nat
  | SpawnFailed "string list"
  | Piped "string list" string
  | Ran "string list" int
  | Terminate nat
  | Wait nat
  | AwaitModel
  | Transcribe nat string
  | Unlink string

text \<open>
  The background thread running \<open>_load_model\<close>: constructing the engine, then about to
  set the event, then about to print its report, then finished. The exception of a
  failed construction travels with the program counter.
\<close>

datatype loader_pc = L_construct | L_set "exn option" | L_report "exn option" | L_done

text \<open>
  The surroundings: the temporary files that exist, the capture processes that are
  running, the next process id, the loader thread, and the effects so far.
\<close>

record world =
  files :: "string set"
  procs :: "nat set"
  next_pid :: nat
  loader :: loader_pc
  trace :: "effect list"

text \<open>
  What the surroundings answer during one call of a handler: whether starting a command
  raises, the exit status of a command that ran, the name of the new temporary file (or
  the exception of \<open>NamedTemporaryFile\<close>), what the engine returns for a file (the texts
  of its segments, or an exception raised by the call or while the segments are
  iterated), and how the construction of the engine ends if it ends at all.
\<close>

record env =
  spawn_error :: "string list \<Rightarrow> exn option"
  exit_status :: "string list \<Rightarrow> int"
  mktemp :: "exn + string"
  transcribe_result :: "nat \<Rightarrow> string \<Rightarrow> exn + string list"
  load_result :: "(exn + nat) option"

definition emit :: "effect \<Rightarrow> world \<Rightarrow> world" where
  "emit e w = w\<lparr>trace := trace w @ [e]\<rparr>"

text \<open>Python truthiness of a field that is \<open>None\<close> or a \<open>str\<close>.\<close>

definition truthy :: "string option \<Rightarrow> bool" where
  "truthy x = (case x of None \<Rightarrow> False | Some s \<Rightarrow> s \<noteq> [])"

definition init_dictation :: dictation where
  "init_dictation =
     \<lparr>recording = False, record_process = None, temp_file = None, model = None,
      model_loaded = False, model_error = None, running = True\<rparr>"

text \<open>\<open>Dictation.__init__\<close> prints and starts the loader thread.\<close>

definition init_world :: "globals \<Rightarrow> world" where
  "init_world g =
     \<lparr>files = {}, procs = {}, next_pid = 0, loader = L_construct,
      trace = [Print (''Loading Whisper model ('' @ model_size (CONFIG g) @ '')...'')]\<rparr>"

subsection \<open>\<open>_load_model\<close>, one atomic step at a time\<close>

definition load_step :: "globals \<Rightarrow> env \<Rightarrow> dictation \<times> world \<Rightarrow> dictation \<times> world" where
  "load_step g env = (\<lambda>(d, w).
     case loader w of
       L_construct \<Rightarrow>
         (case load_result env of
            None \<Rightarrow> (d, w)
          | Some (Inr m) \<Rightarrow> (d\<lparr>model := Some m\<rparr>, w\<lparr>loader := L_set None\<rparr>)
          | Some (Inl e) \<Rightarrow> (d\<lparr>model_error := Some (str_exn e)\<rparr>, w\<lparr>loader := L_set (Some e)\<rparr>))
     | L_set r \<Rightarrow> (d\<lparr>model_loaded := True\<rparr>, w\<lparr>loader := L_report r\<rparr>)
     | L_report None \<Rightarrow>
         (d, emit (Print ''Press Ctrl+C to quit.'')
               (emit (Print (''Hold ['' @ upper (key (CONFIG g)) @ ''] to record, release to transcribe.''))
                 (emit (Print ''Model loaded. Ready for dictation!'') (w\<lparr>loader := L_done\<rparr>))))
     | L_report (Some e) \<Rightarrow>
         (let w1 = emit (Print (''Failed to load model: '' @ str_exn e)) (w\<lparr>loader := L_done\<rparr>)
          in if contains ''cudnn'' (lower (str_exn e)) \<or> contains ''cuda'' (lower (str_exn e))
             then (d, emit (Print ''Hint: Try setting device = cpu in your config, or install cuDNN.'') w1)
             else (d, w1))
     | L_done \<Rightarrow> (d, w))"

text \<open>
  \<open>self.model_loaded.wait()\<close>: returns at once when the event is set; otherwise the
  caller sleeps while the loader runs up to \<open>set()\<close>. \<open>None\<close>: the wait never ends,
  because the construction never ends (or because the loader is past \<open>set()\<close> with the
  event not set, which no run reaches).
\<close>

definition wait_model_loaded :: "globals \<Rightarrow> env \<Rightarrow> dictation \<times> world \<Rightarrow> (dictation \<times> world) option" where
  "wait_model_loaded g env = (\<lambda>(d, w).
     if model_loaded d then Some (d, w)
     else
       (case loader w of
          L_construct \<Rightarrow>
            (case load_result env of
               None \<Rightarrow> None
             | Some r \<Rightarrow> Some (load_step g env (load_step g env (d, w))))
        | L_set r \<Rightarrow> Some (load_step g env (d, w))
        | L_report r \<Rightarrow> None
        | L_done \<Rightarrow> None))"

subsection \<open>\<open>notify\<close>\<close>

text \<open>
  \<open>subprocess.run(argv, capture_output=True)\<close> without \<open>check\<close>: an exception of the
  spawn passes to the caller; the exit status is dropped.
\<close>

definition subprocess_run :: "env \<Rightarrow> string list \<Rightarrow> world \<Rightarrow> outcome \<times> world" where
  "subprocess_run env argv w =
     (case spawn_error env argv of
        Some e \<Rightarrow> (Raised e, emit (SpawnFailed argv) w)
      | None \<Rightarrow> (Returned, emit (Ran argv (exit_status env argv)) w))"

definition notify_argv :: "string \<Rightarrow> string \<Rightarrow> string \<Rightarrow> nat \<Rightarrow> string list" where
  "notify_argv title message icon timeout =
     [''notify-send'', ''-a'', ''SoupaWhisper'', ''-i'', icon, ''-t'', str_nat timeout,
      ''-h'', ''string:x-canonical-private-synchronous:soupawhisper'', title, message]"

definition notify :: "globals \<Rightarrow> env \<Rightarrow> string \<Rightarrow> string \<Rightarrow> string \<Rightarrow> nat \<Rightarrow> world \<Rightarrow> outcome \<times> world" where
  "notify g env title message icon timeout w =
     (if \<not> notifications (CONFIG g) then (Returned, w)
      else subprocess_run env (notify_argv title message icon timeout) w)"

subsection \<open>\<open>start_recording\<close>\<close>

definition arecord_argv :: "string \<Rightarrow> string list" where
  "arecord_argv name =
     [''arecord'', ''-f'', ''S16_LE'', ''-r'', ''16000'', ''-c'', ''1'', ''-t'', ''wav'', name]"

definition start_recording :: "globals \<Rightarrow> env \<Rightarrow> dictation \<times> world \<Rightarrow> outcome \<times> dictation \<times> world" where
  "start_recording g env = (\<lambda>(d, w).
     if recording d \<or> truthy (model_error d) then (Returned, d, w)
     else
       (let d1 = d\<lparr>recording := True\<rparr> in
        case mktemp env of
          Inl e \<Rightarrow> (Raised e, d1, w)
        | Inr name \<Rightarrow>
            (let d2 = d1\<lparr>temp_file := Some name\<rparr>;
                 w2 = emit (MkTemp name) (w\<lparr>files := insert name (files w)\<rparr>)
             in case spawn_error env (arecord_argv name) of
                  Some e \<Rightarrow> (Raised e, d2, emit (SpawnFailed (arecord_argv name)) w2)
                | None \<Rightarrow>
                    (let pid = next_pid w2;
                         d3 = d2\<lparr>record_process := Some pid\<rparr>;
                         w3 = emit (Popen (arecord_argv name) pid)
                                (w2\<lparr>procs := insert pid (procs w2), next_pid := Suc pid\<rparr>);
                         w4 = emit (Print ''Recording...'') w3;
                         (r, w5) = notify g env ''Recording...''
                                     (''Release '' @ upper (key (CONFIG g)) @ '' when done'')
                                     ''audio-input-microphone'' 30000 w4
                     in (r, d3, w5)))))"

subsection \<open>\<open>stop_recording\<close>\<close>

text \<open>Lines 181 to 184: terminate the capture process and wait for it, if there is one.\<close>

definition stop_capture :: "dictation \<times> world \<Rightarrow> dictation \<times> world" where
  "stop_capture = (\<lambda>(d, w).
     case record_process d of
       None \<Rightarrow> (d, w)
     | Some pid \<Rightarrow>
         (d\<lparr>record_process := None\<rparr>,
          emit (Wait pid) (emit (Terminate pid) (w\<lparr>procs := procs w - {pid}\<rparr>))))"

definition clipboard_argv :: "globals \<Rightarrow> string list" where
  "clipboard_argv g =
     (if session_type g = ''wayland'' then [''wl-copy'']
      else [''xclip'', ''-selection'', ''clipboard''])"

definition typing_argv :: "globals \<Rightarrow> string \<Rightarrow> string list" where
  "typing_argv g text =
     (if session_type g = ''wayland'' then [''wtype'', text]
      else [''xdotool'', ''type'', ''--clearmodifiers'', text])"

text \<open>Lines 208 to 229: the branch taken when \<open>text\<close> is truthy.\<close>

definition dispatch :: "globals \<Rightarrow> env \<Rightarrow> string \<Rightarrow> world \<Rightarrow> outcome \<times> world" where
  "dispatch g env text w =
     (case spawn_error env (clipboard_argv g) of
        Some e \<Rightarrow> (Raised e, emit (SpawnFailed (clipboard_argv g)) w)
      | None \<Rightarrow>
          (let w1 = emit (Piped (clipboard_argv g) text) w;
               (r, w2) = (if auto_type (CONFIG g) then subprocess_run env (typing_argv g text) w1
                          else (Returned, w1))
           in case r of
                Returned \<Rightarrow>
                  notify g env ''Copied!''
                    (take 100 text @ (if length text > 100 then ''...'' else []))
                    ''emblem-ok-symbolic'' 3000
                    (emit (Print (''Copied: '' @ text)) w2)
              | _ \<Rightarrow> (r, w2)))"

text \<open>
  Lines 199 to 232, the body of the \<open>try\<close>. \<open>self.model.transcribe\<close> on \<open>None\<close> and
  \<open>self.temp_file.name\<close> on \<open>None\<close> raise \<open>AttributeError\<close>.
\<close>

definition NoneType_has_no_attribute :: "string \<Rightarrow> string" where
  "NoneType_has_no_attribute a =
     [CHR 0x27] @ ''NoneType'' @ [CHR 0x27] @ '' object has no attribute '' @ [CHR 0x27] @ a @ [CHR 0x27]"

definition try_body :: "globals \<Rightarrow> env \<Rightarrow> dictation \<Rightarrow> world \<Rightarrow> outcome \<times> world" where
  "try_body g env d w =
     (case model d of
        None \<Rightarrow> (Raised (Exn AttributeError (NoneType_has_no_attribute ''transcribe'')), w)
      | Some m \<Rightarrow>
          (case temp_file d of
             None \<Rightarrow> (Raised (Exn AttributeError (NoneType_has_no_attribute ''name'')), w)
           | Some name \<Rightarrow>
               (let w1 = emit (Transcribe m name) w
                in case transcribe_result env m name of
                     Inl e \<Rightarrow> (Raised e, w1)
                   | Inr segments \<Rightarrow>
                       (let text = transcript segments
                        in if text \<noteq> [] then dispatch g env text w1
                           else notify g env ''No speech detected'' ''Try speaking louder''
                                  ''dialog-warning'' 2000
                                  (emit (Print ''No speech detected'') w1)))))"

text \<open>Lines 234 to 236: \<open>except Exception as e\<close>.\<close>

definition except_clause :: "globals \<Rightarrow> env \<Rightarrow> exn \<Rightarrow> world \<Rightarrow> outcome \<times> world" where
  "except_clause g env e w =
     notify g env ''Error'' (take 50 (str_exn e)) ''dialog-error'' 3000
       (emit (Print (''Error: '' @ str_exn e)) w)"

text \<open>Lines 237 to 240: \<open>finally\<close>.\<close>

definition finally_clause :: "dictation \<Rightarrow> world \<Rightarrow> world" where
  "finally_clause d w =
     (case temp_file d of
        None \<Rightarrow> w
      | Some name \<Rightarrow>
          if name \<in> files w then emit (Unlink name) (w\<lparr>files := files w - {name}\<rparr>) else w)"

text \<open>The whole \<open>try\<close> statement of lines 198 to 240.\<close>

definition try_statement :: "globals \<Rightarrow> env \<Rightarrow> dictation \<Rightarrow> world \<Rightarrow> outcome \<times> world" where
  "try_statement g env d w =
     (case try_body g env d w of
        (Raised e, w1) \<Rightarrow>
          (let (r, w2) = except_clause g env e w1 in (r, finally_clause d w2))
      | (r, w1) \<Rightarrow> (r, finally_clause d w1))"

text \<open>
  Lines 192 to 240, what \<open>stop_recording\<close> does once the wait on the event has
  returned: the report of a failed load and the early return, or the \<open>try\<close> statement.
\<close>

definition transcribe_or_report :: "globals \<Rightarrow> env \<Rightarrow> dictation \<times> world \<Rightarrow> outcome \<times> dictation \<times> world" where
  "transcribe_or_report g env = (\<lambda>(d, w).
     if truthy (model_error d) then
       (let (r, w') = notify g env ''Error'' ''Model failed to load'' ''dialog-error'' 3000
                        (emit (Print ''Cannot transcribe: model failed to load'') w)
        in (r, d, w'))
     else
       (let (r, w') = try_statement g env d w in (r, d, w')))"

definition stop_recording :: "globals \<Rightarrow> env \<Rightarrow> dictation \<times> world \<Rightarrow> outcome \<times> dictation \<times> world" where
  "stop_recording g env = (\<lambda>(d, w).
     if \<not> recording d then (Returned, d, w)
     else
       (let (d2, w2) = stop_capture (d\<lparr>recording := False\<rparr>, w);
            (r, w4) = notify g env ''Transcribing...'' ''Processing your speech''
                        ''emblem-synchronizing'' 30000
                        (emit (Print ''Transcribing...'') w2)
        in case r of
             Returned \<Rightarrow>
               (case wait_model_loaded g env (d2, w4) of
                  None \<Rightarrow> (Blocked, d2, w4)
                | Some (d3, w5) \<Rightarrow> transcribe_or_report g env (d3, emit AwaitModel w5))
           | _ \<Rightarrow> (r, d2, w4)))"

subsection \<open>Events delivered to the controller\<close>

text \<open>
  A hotkey edge calls its handler (lines 266 to 269 of \<open>run\<close>); a loader step lets the
  background thread take its next step. Each event comes with the answers of the
  surroundings during it. The state a handler leaves behind is kept however the handler
  ended: \<open>run\<close> goes on after an \<open>OSError\<close>, and going on after any other end only adds
  runs to the ones the program has.
\<close>

datatype event = Down | Up | LoaderStep

definition deliver :: "globals \<Rightarrow> event \<times> env \<Rightarrow> dictation \<times> world \<Rightarrow> dictation \<times> world" where
  "deliver g = (\<lambda>(ev, env) s.
     case ev of
       Down \<Rightarrow> snd (start_recording g env s)
     | Up \<Rightarrow> snd (stop_recording g env s)
     | LoaderStep \<Rightarrow> load_step g env s)"

definition run_events :: "globals \<Rightarrow> (event \<times> env) list \<Rightarrow> dictation \<times> world \<Rightarrow> dictation \<times> world" where
  "run_events g evs s = fold (deliver g) evs s"

subsection \<open>\<open>stop_recording\<close> beside the loader thread\<close>

text \<open>
  The main thread inside \<open>stop_recording\<close>, one program point per block of the
  method: the guard (line 176), the stop of the capture (181), the print and the
  notification (186), the wait on the event (190), the test of \<open>model_error\<close> (192), the
  \<open>try\<close> statement (198), and the end with the way the call ended. The shared fields are
  read once per block (\<open>model_loaded\<close> at the wait, \<open>model_error\<close> at the test, \<open>model\<close>
  at the call in the \<open>try\<close>), so interleaving at the blocks loses nothing.
\<close>

datatype main_pc = M_entry | M_stop | M_notify | M_wait | M_check | M_try | M_done outcome

text \<open>
  One step of the two threads: either the loader takes its next step, or the main
  thread runs its next block. The wait can only be passed when the event is set.
\<close>

inductive step :: "globals \<Rightarrow> env \<Rightarrow> main_pc \<times> dictation \<times> world \<Rightarrow> main_pc \<times> dictation \<times> world \<Rightarrow> bool"
  for g :: globals and env :: env where
  loader_step: "load_step g env (d, w) = (d', w') \<Longrightarrow> step g env (pc, d, w) (pc, d', w')"
| entry_idle: "\<not> recording d \<Longrightarrow> step g env (M_entry, d, w) (M_done Returned, d, w)"
| entry_recording: "recording d \<Longrightarrow> step g env (M_entry, d, w) (M_stop, d\<lparr>recording := False\<rparr>, w)"
| stop: "stop_capture (d, w) = (d', w') \<Longrightarrow> step g env (M_stop, d, w) (M_notify, d', w')"
| notify_returns:
    "notify g env ''Transcribing...'' ''Processing your speech'' ''emblem-synchronizing'' 30000
       (emit (Print ''Transcribing...'') w) = (Returned, w')
     \<Longrightarrow> step g env (M_notify, d, w) (M_wait, d, w')"
| notify_raises:
    "notify g env ''Transcribing...'' ''Processing your speech'' ''emblem-synchronizing'' 30000
       (emit (Print ''Transcribing...'') w) = (Raised e, w')
     \<Longrightarrow> step g env (M_notify, d, w) (M_done (Raised e), d, w')"
| wait_returns: "model_loaded d \<Longrightarrow> step g env (M_wait, d, w) (M_check, d, emit AwaitModel w)"
| model_failed:
    "truthy (model_error d) \<Longrightarrow>
     notify g env ''Error'' ''Model failed to load'' ''dialog-error'' 3000
       (emit (Print ''Cannot transcribe: model failed to load'') w) = (r, w')
     \<Longrightarrow> step g env (M_check, d, w) (M_done r, d, w')"
| model_usable: "\<not> truthy (model_error d) \<Longrightarrow> step g env (M_check, d, w) (M_try, d, w)"
| transcribe: "try_statement g env d w = (r, w') \<Longrightarrow> step g env (M_try, d, w) (M_done r, d, w')"


text \<open>
  The fields the loader writes agree with where the loader is: nothing written while it
  constructs, the model or the error written before the event is set, the event set
  from then on.
\<close>

definition loader_consistent :: "dictation \<times> world \<Rightarrow> bool" where
  "loader_consistent = (\<lambda>(d, w).
     case loader w of
       L_construct \<Rightarrow> \<not> model_loaded d \<and> model d = None \<and> model_error d = None
     | L_set None \<Rightarrow> \<not> model_loaded d \<and> model d \<noteq> None \<and> model_error d = None
     | L_set (Some e) \<Rightarrow> \<not> model_loaded d \<and> model d = None \<and> model_error d = Some (str_exn e)
     | L_report None \<Rightarrow> model_loaded d \<and> model d \<noteq> None \<and> model_error d = None
     | L_report (Some e) \<Rightarrow> model_loaded d \<and> model d = None \<and> model_error d = Some (str_exn e)
     | L_done \<Rightarrow> model_loaded d \<and> (model d = None) = (model_error d \<noteq> None))"

text \<open>The model state of the specification, read off the fields.\<close>

datatype model_state = Loading | Ready | Failed string

definition model_state_of :: "dictation \<Rightarrow> model_state" where
  "model_state_of d =
     (case model_error d of
        Some msg \<Rightarrow> Failed msg
      | None \<Rightarrow> if model_loaded d then Ready else Loading)"

section \<open>The documented reading of the configuration file\<close>

text \<open>The value the file gives an option of a section, if it gives one.\<close>

definition configured :: "ini \<Rightarrow> string \<Rightarrow> string \<Rightarrow> string option" where
  "configured c section option =
     (case unify_values c section of None \<Rightarrow> None | Some d \<Rightarrow> d option)"

text \<open>
  The documented reading of the file. A boolean word is one of \<open>1\<close>, \<open>yes\<close>, \<open>true\<close>,
  \<open>on\<close> (true) or \<open>0\<close>, \<open>no\<close>, \<open>false\<close>, \<open>off\<close> (false), in any letter case. A text
  option is the file's value, or the default when the file gives none; a boolean option
  is the truth value of the file's word, or the default when the file gives none, and is
  undefined when the file gives a value that is no boolean word.
\<close>

definition boolean_word :: "string \<Rightarrow> bool option" where
  "boolean_word v =
     (if lower v = ''1'' \<or> lower v = ''yes'' \<or> lower v = ''true'' \<or> lower v = ''on''
      then Some True
      else if lower v = ''0'' \<or> lower v = ''no'' \<or> lower v = ''false'' \<or> lower v = ''off''
      then Some False
      else None)"

definition text_option :: "ini \<Rightarrow> string \<Rightarrow> string \<Rightarrow> string \<Rightarrow> string" where
  "text_option c section option dflt =
     (case configured c section option of None \<Rightarrow> dflt | Some v \<Rightarrow> v)"

definition boolean_option :: "ini \<Rightarrow> string \<Rightarrow> string \<Rightarrow> bool \<Rightarrow> bool option" where
  "boolean_option c section option dflt =
     (case configured c section option of None \<Rightarrow> Some dflt | Some v \<Rightarrow> boolean_word v)"

text \<open>
  A file is plain when none of the values it gives the six options contains the
  interpolation character \<open>%\<close>.
\<close>

definition option_keys :: "(string \<times> string) list" where
  "option_keys =
     [(''whisper'', ''model''), (''whisper'', ''device''), (''whisper'', ''compute_type''),
      (''hotkey'', ''key''), (''behavior'', ''auto_type''), (''behavior'', ''notifications'')]"

definition plain :: "ini \<Rightarrow> bool" where
  "plain c =
     list_all (\<lambda>(section, option).
        case configured c section option of None \<Rightarrow> True | Some v \<Rightarrow> CHR ''%'' \<notin> set v)
       option_keys"

section \<open>Observations on traces\<close>

text \<open>The effects a call added to the trace.\<close>

definition new_effects :: "world \<Rightarrow> world \<Rightarrow> effect list" where
  "new_effects w w' = drop (length (trace w)) (trace w')"

text \<open>The capture processes alive after a sequence of effects.\<close>

fun live_step :: "nat set \<Rightarrow> effect \<Rightarrow> nat set" where
  "live_step S (Popen argv pid) = insert pid S"
| "live_step S (Terminate pid) = S - {pid}"
| "live_step S e = S"

definition live_after :: "effect list \<Rightarrow> nat set" where
  "live_after t = foldl live_step {} t"

text \<open>
  At most one capture process is alive at every point of a sequence of effects that
  starts with the processes \<open>S\<close> alive.
\<close>

fun sessions_ok :: "nat set \<Rightarrow> effect list \<Rightarrow> bool" where
  "sessions_ok S [] = (card S \<le> 1)"
| "sessions_ok S (e # es) = (card S \<le> 1 \<and> sessions_ok (live_step S e) es)"

text \<open>
  The invariant of the controller: at every point so far at most one capture process
  was alive, the processes alive are the ones the surroundings run, that is the one the
  object holds a handle of, if any, and a handle is held only while recording.
\<close>

definition one_session :: "dictation \<times> world \<Rightarrow> bool" where
  "one_session = (\<lambda>(d, w).
     sessions_ok {} (trace w)
     \<and> live_after (trace w) = procs w
     \<and> procs w = set_option (record_process d)
     \<and> (recording d \<or> record_process d = None))"

text \<open>The command an effect starts or tries to start.\<close>

fun command :: "effect \<Rightarrow> string option" where
  "command (Popen argv pid) = (case argv of [] \<Rightarrow> None | c # _ \<Rightarrow> Some c)"
| "command (SpawnFailed argv) = (case argv of [] \<Rightarrow> None | c # _ \<Rightarrow> Some c)"
| "command (Piped argv text) = (case argv of [] \<Rightarrow> None | c # _ \<Rightarrow> Some c)"
| "command (Ran argv rc) = (case argv of [] \<Rightarrow> None | c # _ \<Rightarrow> Some c)"
| "command e = None"

text \<open>The output dispatcher is the clipboard command and the typing command.\<close>

definition is_dispatch :: "effect \<Rightarrow> bool" where
  "is_dispatch e = (command e \<in> {Some ''wl-copy'', Some ''xclip'', Some ''wtype'', Some ''xdotool''})"

definition is_notification :: "effect \<Rightarrow> bool" where
  "is_notification e = (command e = Some ''notify-send'')"

text \<open>The effects of \<open>notify\<close> and of the stop of the capture, as lists.\<close>

definition notify_effects :: "globals \<Rightarrow> env \<Rightarrow> string \<Rightarrow> string \<Rightarrow> string \<Rightarrow> nat \<Rightarrow> effect list" where
  "notify_effects g env title message icon timeout =
     (if \<not> notifications (CONFIG g) then []
      else case spawn_error env (notify_argv title message icon timeout) of
             Some e \<Rightarrow> [SpawnFailed (notify_argv title message icon timeout)]
           | None \<Rightarrow> [Ran (notify_argv title message icon timeout)
                          (exit_status env (notify_argv title message icon timeout))])"

definition stop_capture_effects :: "nat option \<Rightarrow> effect list" where
  "stop_capture_effects p = (case p of None \<Rightarrow> [] | Some pid \<Rightarrow> [Terminate pid, Wait pid])"

text \<open>Effects that touch neither a capture process nor a temporary file.\<close>

fun is_io :: "effect \<Rightarrow> bool" where
  "is_io (Print s) = True"
| "is_io (SpawnFailed argv) = True"
| "is_io (Piped argv text) = True"
| "is_io (Ran argv rc) = True"
| "is_io (Transcribe m p) = True"
| "is_io e = False"

section \<open>The specification's transcript\<close>

text \<open>
  The text with the whitespace at both ends removed, by position: \<open>i\<close> whitespace
  characters at the front, \<open>j\<close> at the back, the characters between.
\<close>

definition spec_trim :: "string \<Rightarrow> string" where
  "spec_trim s =
     (let i = length (takeWhile is_space s);
          j = length (takeWhile is_space (rev s))
      in take (length s - i - j) (drop i s))"

text \<open>The texts in order, a single space before each one but the first.\<close>

fun spec_space_joined :: "string list \<Rightarrow> string" where
  "spec_space_joined [] = []"
| "spec_space_joined (t # ts) = t @ concat (map (\<lambda>u. CHR '' '' # u) ts)"

definition spec_transcript :: "string list \<Rightarrow> string" where
  "spec_transcript segments = spec_space_joined (map spec_trim segments)"

section \<open>Concrete inputs\<close>

definition default_config :: config where
  "default_config =
     \<lparr>model_size = ''base.en'', device = ''cpu'', compute_type = ''int8'', key = ''f12'',
      auto_type = True, notifications = True\<rparr>"

definition default_globals :: globals where
  "default_globals = \<lparr>session_type = ''x11'', CONFIG = default_config\<rparr>"

definition silent_globals :: globals where
  "silent_globals = \<lparr>session_type = ''x11'', CONFIG = default_config\<lparr>notifications := False\<rparr>\<rparr>"

text \<open>An interpolation that rejects every value it is asked about.\<close>

definition no_interpolation :: interpolation where
  "no_interpolation = (\<lambda>d v. Inl (Exn InterpolationError v))"

text \<open>The file \<^verbatim>\<open>[behavior]\<close> / \<^verbatim>\<open>auto_type = maybe\<close>.\<close>

definition maybe_ini :: ini where
  "maybe_ini =
     \<lparr>defaults = Map.empty,
      sections = [''behavior'' \<mapsto> [''auto_type'' \<mapsto> ''maybe'']]\<rparr>"

text \<open>
  The file \<^verbatim>\<open>[whisper]\<close> / \<^verbatim>\<open>model = small\<close> / \<^verbatim>\<open>[behavior]\<close> /
  \<^verbatim>\<open>auto_type = Off\<close> / \<^verbatim>\<open>notifications = YES\<close>, and the same file with
  \<^verbatim>\<open>notifications = perhaps\<close>.
\<close>

definition custom_ini :: ini where
  "custom_ini =
     \<lparr>defaults = Map.empty,
      sections = [''whisper'' \<mapsto> [''model'' \<mapsto> ''small''],
                  ''behavior'' \<mapsto> [''auto_type'' \<mapsto> ''Off'', ''notifications'' \<mapsto> ''YES'']]\<rparr>"

definition perhaps_ini :: ini where
  "perhaps_ini =
     \<lparr>defaults = Map.empty,
      sections = [''whisper'' \<mapsto> [''model'' \<mapsto> ''small''],
                  ''behavior'' \<mapsto> [''auto_type'' \<mapsto> ''Off'', ''notifications'' \<mapsto> ''perhaps'']]\<rparr>"

text \<open>
  Surroundings in which every command starts and exits with status 0, the temporary
  file is \<open>/tmp/tmpa.wav\<close>, the engine hears \<open>segments\<close>, and the construction of the
  engine ends as \<open>r\<close>.
\<close>

definition calm_env :: "string list \<Rightarrow> (exn + nat) option \<Rightarrow> env" where
  "calm_env segments r =
     \<lparr>spawn_error = (\<lambda>argv. None), exit_status = (\<lambda>argv. 0), mktemp = Inr ''/tmp/tmpa.wav'',
      transcribe_result = (\<lambda>m path. Inr segments), load_result = r\<rparr>"

text \<open>The same, but the command \<open>notify-send\<close> is not installed.\<close>

definition no_notify_send_env :: "string list \<Rightarrow> (exn + nat) option \<Rightarrow> env" where
  "no_notify_send_env segments r =
     (calm_env segments r)
       \<lparr>spawn_error := (\<lambda>argv. case argv of
            c # _ \<Rightarrow> (if c = ''notify-send''
                      then Some (Exn FileNotFoundError ''[Errno 2] No such file or directory'')
                      else None)
          | [] \<Rightarrow> None)\<rparr>"

text \<open>
  The object and the surroundings after one Down edge delivered to a fresh controller
  whose model is still loading, in calm surroundings.
\<close>

definition recording_state :: "globals \<Rightarrow> dictation \<times> world" where
  "recording_state g = run_events g [(Down, calm_env [] None)] (init_dictation, init_world g)"


definition cuda_failure :: exn where
  "cuda_failure = Exn RuntimeError ''CUDA driver version is insufficient''"

definition memory_failure :: exn where
  "memory_failure = Exn MemoryError []"

section \<open>The transcript\<close>

lemma join_space_joined: "join '' '' ts = spec_space_joined ts"
  by (induction "'' ''" ts rule: join.induct) simp_all

lemma rstrip_take: "rstrip t = take (length t - length (takeWhile is_space (rev t))) t"
  unfolding rstrip_def by (simp add: dropWhile_eq_drop rev_drop)

lemma takeWhile_take_long:
  "length (takeWhile P xs) < n \<Longrightarrow> takeWhile P (take n xs) = takeWhile P xs"
proof (induction xs arbitrary: n)
  case Nil
  then show ?case by simp
next
  case (Cons x xs)
  then show ?case by (cases n) auto
qed

lemma dropWhile_all: "\<forall>c\<in>set s. P c \<Longrightarrow> dropWhile P s = []"
  by (induction s) auto

lemma takeWhile_all: "\<forall>c\<in>set s. P c \<Longrightarrow> takeWhile P s = s"
  by (induction s) auto

lemma all_space_strip: "\<forall>c\<in>set s. is_space c \<Longrightarrow> strip s = []"
  by (simp add: strip_def lstrip_def rstrip_def dropWhile_all)

lemma all_space_spec_trim: "\<forall>c\<in>set s. is_space c \<Longrightarrow> spec_trim s = []"
  by (simp add: spec_trim_def Let_def takeWhile_all)

lemma takeWhile_stops: "\<not> P x \<Longrightarrow> length (takeWhile P (ys @ x # zs)) \<le> length ys"
  by (induction ys) auto

lemma takeWhile_rev_bound:
  assumes "c \<in> set s" "\<not> P c"
  shows "length (takeWhile P s) + length (takeWhile P (rev s)) < length s"
proof -
  from assms have ne: "dropWhile P s \<noteq> []" by auto
  then obtain x b where b: "dropWhile P s = x # b" by (cases "dropWhile P s") auto
  then have nx: "\<not> P x" using hd_dropWhile[OF ne] by simp
  have s: "s = takeWhile P s @ x # b" using b takeWhile_dropWhile_id[of P s] by simp
  have "rev s = rev b @ x # rev (takeWhile P s)"
    by (subst s) simp
  then have "length (takeWhile P (rev s)) \<le> length b"
    using nx takeWhile_stops[of P x "rev b" "rev (takeWhile P s)"] by simp
  moreover have "length s = length (takeWhile P s) + Suc (length b)"
    by (subst s) simp
  ultimately show ?thesis by simp
qed

lemma strip_spec_trim: "strip s = spec_trim s"
proof (cases "\<forall>c\<in>set s. is_space c")
  case True
  then show ?thesis by (simp only: all_space_strip all_space_spec_trim)
next
  case False
  then obtain c where c: "c \<in> set s" "\<not> is_space c" by blast
  define i where "i = length (takeWhile is_space s)"
  define j where "j = length (takeWhile is_space (rev s))"
  have lt: "i + j < length s"
    unfolding i_def j_def using c takeWhile_rev_bound[of c s is_space] by simp
  have "rev (drop i s) = take (length s - i) (rev s)" by (simp add: rev_drop)
  then have "takeWhile is_space (rev (drop i s)) = takeWhile is_space (rev s)"
    using takeWhile_take_long[of is_space "rev s" "length s - i"] lt j_def by simp
  then have "rstrip (drop i s) = take (length s - i - j) (drop i s)"
    by (simp add: rstrip_take j_def)
  then show ?thesis
    by (simp add: strip_def lstrip_def dropWhile_eq_drop spec_trim_def Let_def i_def j_def)
qed

text \<open>What \<open>strip\<close> leaves has no whitespace at either end, and what it removes is whitespace.\<close>

lemma strip_ends:
  "strip s \<noteq> [] \<Longrightarrow> \<not> is_space (hd (strip s)) \<and> \<not> is_space (last (strip s))"
proof -
  assume ne: "strip s \<noteq> []"
  let ?t = "dropWhile is_space s"
  have r: "strip s = rev (dropWhile is_space (rev ?t))"
    by (simp add: strip_def lstrip_def rstrip_def)
  with ne have ne2: "dropWhile is_space (rev ?t) \<noteq> []" by simp
  then have l: "\<not> is_space (last (strip s))"
    using hd_dropWhile[OF ne2] by (simp add: r last_rev)
  have tne: "?t \<noteq> []"
  proof
    assume a: "?t = []"
    have "dropWhile is_space (rev ?t) = []"
      by (simp only: a rev.simps dropWhile.simps)
    with ne2 show False by blast
  qed
  have "\<not> is_space (hd ?t)" using hd_dropWhile[OF tne] .
  moreover have "hd (strip s) = hd ?t"
  proof -
    obtain i where "strip s = take i ?t"
      using rstrip_take[of ?t] by (simp add: strip_def lstrip_def)
    with ne show ?thesis by (cases i; cases ?t) auto
  qed
  ultimately show ?thesis using l by simp
qed

lemma strip_removes_whitespace:
  "\<exists>l r. s = l @ strip s @ r \<and> (\<forall>c\<in>set l. is_space c) \<and> (\<forall>c\<in>set r. is_space c)"
proof -
  let ?t = "dropWhile is_space s"
  let ?r = "rev (takeWhile is_space (rev ?t))"
  have "?t = rev (rev ?t)" by simp
  also have "\<dots> = rev (takeWhile is_space (rev ?t) @ dropWhile is_space (rev ?t))"
    by (simp only: takeWhile_dropWhile_id)
  also have "\<dots> = rev (dropWhile is_space (rev ?t)) @ ?r"
    by (simp only: rev_append)
  finally have t: "?t = strip s @ ?r"
    by (simp add: strip_def lstrip_def rstrip_def)
  have "s = takeWhile is_space s @ ?t" by simp
  with t have "s = takeWhile is_space s @ strip s @ ?r" by simp
  moreover have "\<forall>c\<in>set (takeWhile is_space s). is_space c"
    by (auto dest: set_takeWhileD)
  moreover have "\<forall>c\<in>set ?r. is_space c"
    by (auto dest: set_takeWhileD)
  ultimately show ?thesis by blast
qed

text \<open>
  C7. For every sequence of segment texts, in the engine's order, the transcript the
  code computes is the texts, each trimmed of the whitespace at its ends, joined by
  single spaces in that order; no segments give the empty string; and the segments
  "hello", " world " give "hello world".
\<close>

theorem transcript_is_trimmed_space_join:
  "transcript segments = spec_transcript segments
   \<and> transcript [] = []
   \<and> transcript [''hello'', '' world ''] = ''hello world''"
proof -
  have "strip = spec_trim"
    by (rule ext) (rule strip_spec_trim)
  then have "transcript segments = spec_transcript segments"
    by (simp add: transcript_def spec_transcript_def join_space_joined)
  moreover have "transcript [] = []"
    by (simp add: transcript_def)
  moreover have "transcript [''hello'', '' world ''] = ''hello world''"
    by (simp add: transcript_def strip_def lstrip_def rstrip_def is_space_def)
  ultimately show ?thesis by simp
qed

section \<open>Configuration\<close>

lemmas config_defs =
  load_config_def get_def getboolean_def unify_values_def before_get_def
  convert_to_boolean_def configured_def empty_ini_def default_config_def
  lower_def lower_char_def

lemma lower_literals [simp]:
  "lower ''model'' = ''model''" "lower ''device'' = ''device''"
  "lower ''compute_type'' = ''compute_type''" "lower ''key'' = ''key''"
  "lower ''auto_type'' = ''auto_type''" "lower ''notifications'' = ''notifications''"
  by (simp_all add: lower_def lower_char_def)

lemma get_absent:
  "configured c section (lower option) = None \<Longrightarrow> get interp c section option fb = Inr fb"
  by (auto simp: get_def configured_def split: option.splits)

lemma get_present:
  "configured c section (lower option) = Some v \<Longrightarrow> CHR ''%'' \<notin> set v \<Longrightarrow>
   get interp c section option fb = Inr v"
  by (auto simp: get_def configured_def before_get_def split: option.splits)

lemma getboolean_absent:
  "configured c section (lower option) = None \<Longrightarrow> getboolean interp c section option fb = Inr fb"
  by (auto simp: getboolean_def configured_def split: option.splits)

lemma getboolean_present:
  "configured c section (lower option) = Some v \<Longrightarrow> CHR ''%'' \<notin> set v \<Longrightarrow>
   getboolean interp c section option fb = convert_to_boolean v"
  by (auto simp: getboolean_def configured_def before_get_def split: option.splits)

text \<open>The fields of a configuration that loaded, one call of \<open>get\<close> or \<open>getboolean\<close> each.\<close>

lemma load_config_fields:
  assumes "load_config interp (Present (Inr c)) = Inr cfg"
  shows "get interp c ''whisper'' ''model'' ''base.en'' = Inr (model_size cfg)"
    and "get interp c ''whisper'' ''device'' ''cpu'' = Inr (device cfg)"
    and "get interp c ''whisper'' ''compute_type'' ''int8'' = Inr (compute_type cfg)"
    and "get interp c ''hotkey'' ''key'' ''f12'' = Inr (key cfg)"
    and "getboolean interp c ''behavior'' ''auto_type'' True = Inr (auto_type cfg)"
    and "getboolean interp c ''behavior'' ''notifications'' True = Inr (notifications cfg)"
  using assms by (auto simp: load_config_def split: sum.splits)

lemma load_config_raises_auto_type:
  "getboolean interp c ''behavior'' ''auto_type'' True = Inl e \<Longrightarrow>
   isl (load_config interp (Present (Inr c)))"
  by (auto simp: load_config_def split: sum.splits)

lemma load_config_raises_notifications:
  "getboolean interp c ''behavior'' ''notifications'' True = Inl e \<Longrightarrow>
   isl (load_config interp (Present (Inr c)))"
  by (auto simp: load_config_def split: sum.splits)

text \<open>
  C4, as the claim states it, fails: the file \<^verbatim>\<open>[behavior]\<close> / \<^verbatim>\<open>auto_type = maybe\<close>
  does not load with the default \<open>auto_type = true\<close>; \<open>load_config\<close> raises
  \<open>ValueError\<close>.
\<close>

theorem load_config_malformed_boolean:
  "load_config no_interpolation (Present (Inr maybe_ini))
   = Inl (Exn ValueError ''Not a boolean: maybe'')"
  by (simp add: config_defs maybe_ini_def)

text \<open>The conversion of the code accepts exactly the boolean words.\<close>

lemma convert_to_boolean_word:
  "convert_to_boolean v =
     (case boolean_word v of
        Some b \<Rightarrow> Inr b
      | None \<Rightarrow> Inl (Exn ValueError (''Not a boolean: '' @ v)))"
  by (auto simp: convert_to_boolean_def boolean_word_def Let_def)

lemma get_plain:
  "(case configured c section (lower option) of None \<Rightarrow> True | Some v \<Rightarrow> CHR ''%'' \<notin> set v) \<Longrightarrow>
   get interp c section option fb = Inr (text_option c section (lower option) fb)"
  by (cases "configured c section (lower option)")
     (simp_all add: get_absent get_present text_option_def)

lemma getboolean_plain:
  "(case configured c section (lower option) of None \<Rightarrow> True | Some v \<Rightarrow> CHR ''%'' \<notin> set v) \<Longrightarrow>
   getboolean interp c section option fb =
     (case configured c section (lower option) of
        None \<Rightarrow> Inr fb
      | Some v \<Rightarrow> convert_to_boolean v)"
  by (cases "configured c section (lower option)")
     (simp_all add: getboolean_absent getboolean_present)

lemma boolean_option_Some:
  "boolean_option c section option dflt = Some b \<Longrightarrow>
   (case configured c section option of None \<Rightarrow> Inr dflt | Some v \<Rightarrow> convert_to_boolean v) = Inr b"
  by (cases "configured c section option")
     (simp_all add: boolean_option_def convert_to_boolean_word)

text \<open>Loading a plain file, in terms of the documented reading.\<close>

lemma load_config_plain:
  assumes "plain c"
  shows "load_config interp (Present (Inr c)) =
     (case (case configured c ''behavior'' ''auto_type'' of
              None \<Rightarrow> Inr True | Some v \<Rightarrow> convert_to_boolean v) of
        Inl e \<Rightarrow> Inl e
      | Inr a \<Rightarrow>
          (case (case configured c ''behavior'' ''notifications'' of
                   None \<Rightarrow> Inr True | Some v \<Rightarrow> convert_to_boolean v) of
             Inl e \<Rightarrow> Inl e
           | Inr n \<Rightarrow>
               Inr \<lparr>model_size = text_option c ''whisper'' ''model'' ''base.en'',
                    device = text_option c ''whisper'' ''device'' ''cpu'',
                    compute_type = text_option c ''whisper'' ''compute_type'' ''int8'',
                    key = text_option c ''hotkey'' ''key'' ''f12'',
                    auto_type = a, notifications = n\<rparr>))"
proof -
  from assms have p:
    "case configured c ''whisper'' ''model'' of None \<Rightarrow> True | Some v \<Rightarrow> CHR ''%'' \<notin> set v"
    "case configured c ''whisper'' ''device'' of None \<Rightarrow> True | Some v \<Rightarrow> CHR ''%'' \<notin> set v"
    "case configured c ''whisper'' ''compute_type'' of None \<Rightarrow> True | Some v \<Rightarrow> CHR ''%'' \<notin> set v"
    "case configured c ''hotkey'' ''key'' of None \<Rightarrow> True | Some v \<Rightarrow> CHR ''%'' \<notin> set v"
    "case configured c ''behavior'' ''auto_type'' of None \<Rightarrow> True | Some v \<Rightarrow> CHR ''%'' \<notin> set v"
    "case configured c ''behavior'' ''notifications'' of None \<Rightarrow> True | Some v \<Rightarrow> CHR ''%'' \<notin> set v"
    by (simp_all add: plain_def option_keys_def)
  have g: "get interp c ''whisper'' ''model'' ''base.en'' = Inr (text_option c ''whisper'' ''model'' ''base.en'')"
    "get interp c ''whisper'' ''device'' ''cpu'' = Inr (text_option c ''whisper'' ''device'' ''cpu'')"
    "get interp c ''whisper'' ''compute_type'' ''int8'' = Inr (text_option c ''whisper'' ''compute_type'' ''int8'')"
    "get interp c ''hotkey'' ''key'' ''f12'' = Inr (text_option c ''hotkey'' ''key'' ''f12'')"
    using get_plain[of c "''whisper''" "''model''" interp "''base.en''"]
      get_plain[of c "''whisper''" "''device''" interp "''cpu''"]
      get_plain[of c "''whisper''" "''compute_type''" interp "''int8''"]
      get_plain[of c "''hotkey''" "''key''" interp "''f12''"] p(1-4)
    by simp_all
  have b: "getboolean interp c ''behavior'' ''auto_type'' True =
       (case configured c ''behavior'' ''auto_type'' of
          None \<Rightarrow> Inr True | Some v \<Rightarrow> convert_to_boolean v)"
    "getboolean interp c ''behavior'' ''notifications'' True =
       (case configured c ''behavior'' ''notifications'' of
          None \<Rightarrow> Inr True | Some v \<Rightarrow> convert_to_boolean v)"
    using getboolean_plain[of c "''behavior''" "''auto_type''" interp True]
      getboolean_plain[of c "''behavior''" "''notifications''" interp True] p(5,6)
    by simp_all
  show ?thesis
    by (simp only: load_config_def config_file.case sum.case g b)
qed

text \<open>
  C4, amended. Loading gives the documented defaults for an absent file and for an empty
  file, and raises what reading the file raises. For a plain file (no value of the six
  options contains the interpolation character): each text option is the file's value or
  its documented default, and each boolean option that is absent or a boolean word is
  the default or the word's truth value; a value of \<open>auto_type\<close> that is no boolean
  word is not replaced by the default, loading raises \<open>ValueError\<close> naming the value;
  and so does such a value of \<open>notifications\<close> when \<open>auto_type\<close> is absent or a boolean
  word.
\<close>

theorem load_config_defaults_and_errors:
  "load_config interp Absent = Inr default_config
   \<and> load_config interp (Present (Inr empty_ini)) = Inr default_config
   \<and> load_config interp (Present (Inl e)) = Inl e
   \<and> (plain c \<and> boolean_option c ''behavior'' ''auto_type'' True = Some a
        \<and> boolean_option c ''behavior'' ''notifications'' True = Some n \<longrightarrow>
        load_config interp (Present (Inr c)) =
          Inr \<lparr>model_size = text_option c ''whisper'' ''model'' ''base.en'',
               device = text_option c ''whisper'' ''device'' ''cpu'',
               compute_type = text_option c ''whisper'' ''compute_type'' ''int8'',
               key = text_option c ''hotkey'' ''key'' ''f12'',
               auto_type = a, notifications = n\<rparr>)
   \<and> (plain c \<and> configured c ''behavior'' ''auto_type'' = Some v \<and> boolean_word v = None \<longrightarrow>
        load_config interp (Present (Inr c)) = Inl (Exn ValueError (''Not a boolean: '' @ v)))
   \<and> (plain c \<and> boolean_option c ''behavior'' ''auto_type'' True = Some a
        \<and> configured c ''behavior'' ''notifications'' = Some v \<and> boolean_word v = None \<longrightarrow>
        load_config interp (Present (Inr c)) = Inl (Exn ValueError (''Not a boolean: '' @ v)))"
proof -
  have 1: "load_config interp Absent = Inr default_config"
    by (simp add: config_defs)
  have 2: "load_config interp (Present (Inr empty_ini)) = Inr default_config"
    by (simp add: config_defs)
  have 3: "load_config interp (Present (Inl e)) = Inl e"
    by (simp add: load_config_def)
  have 4: "load_config interp (Present (Inr c)) =
          Inr \<lparr>model_size = text_option c ''whisper'' ''model'' ''base.en'',
               device = text_option c ''whisper'' ''device'' ''cpu'',
               compute_type = text_option c ''whisper'' ''compute_type'' ''int8'',
               key = text_option c ''hotkey'' ''key'' ''f12'',
               auto_type = a, notifications = n\<rparr>"
    if "plain c" "boolean_option c ''behavior'' ''auto_type'' True = Some a"
       "boolean_option c ''behavior'' ''notifications'' True = Some n"
    by (simp add: load_config_plain[OF that(1)] boolean_option_Some[OF that(2)]
          boolean_option_Some[OF that(3)])
  have 5: "load_config interp (Present (Inr c)) = Inl (Exn ValueError (''Not a boolean: '' @ v))"
    if "plain c" "configured c ''behavior'' ''auto_type'' = Some v" "boolean_word v = None"
    using that(2,3) by (simp add: load_config_plain[OF that(1)] convert_to_boolean_word)
  have 6: "load_config interp (Present (Inr c)) = Inl (Exn ValueError (''Not a boolean: '' @ v))"
    if "plain c" "boolean_option c ''behavior'' ''auto_type'' True = Some a"
       "configured c ''behavior'' ''notifications'' = Some v" "boolean_word v = None"
    using that(3,4)
    by (simp add: load_config_plain[OF that(1)] boolean_option_Some[OF that(2)]
          convert_to_boolean_word)
  from 1 2 3 4 5 6 show ?thesis by blast
qed

lemma concrete_configured [simp]:
  "configured custom_ini ''whisper'' ''model'' = Some ''small''"
  "configured custom_ini ''whisper'' ''device'' = None"
  "configured custom_ini ''whisper'' ''compute_type'' = None"
  "configured custom_ini ''hotkey'' ''key'' = None"
  "configured custom_ini ''behavior'' ''auto_type'' = Some ''Off''"
  "configured custom_ini ''behavior'' ''notifications'' = Some ''YES''"
  "configured perhaps_ini ''whisper'' ''model'' = Some ''small''"
  "configured perhaps_ini ''whisper'' ''device'' = None"
  "configured perhaps_ini ''whisper'' ''compute_type'' = None"
  "configured perhaps_ini ''hotkey'' ''key'' = None"
  "configured perhaps_ini ''behavior'' ''auto_type'' = Some ''Off''"
  "configured perhaps_ini ''behavior'' ''notifications'' = Some ''perhaps''"
  "configured maybe_ini ''whisper'' ''model'' = None"
  "configured maybe_ini ''whisper'' ''device'' = None"
  "configured maybe_ini ''whisper'' ''compute_type'' = None"
  "configured maybe_ini ''hotkey'' ''key'' = None"
  "configured maybe_ini ''behavior'' ''auto_type'' = Some ''maybe''"
  "configured maybe_ini ''behavior'' ''notifications'' = None"
  by (simp_all add: configured_def unify_values_def custom_ini_def perhaps_ini_def maybe_ini_def)

lemma concrete_boolean_words [simp]:
  "boolean_word ''Off'' = Some False" "boolean_word ''YES'' = Some True"
  "boolean_word ''maybe'' = None" "boolean_word ''perhaps'' = None"
  by code_simp+

theorem load_config_defaults_and_errors_witness:
  "(plain custom_ini
    \<and> boolean_option custom_ini ''behavior'' ''auto_type'' True = Some False
    \<and> boolean_option custom_ini ''behavior'' ''notifications'' True = Some True
    \<and> load_config no_interpolation (Present (Inr custom_ini)) =
         Inr \<lparr>model_size = ''small'', device = ''cpu'', compute_type = ''int8'', key = ''f12'',
              auto_type = False, notifications = True\<rparr>)
   \<and> (plain maybe_ini
    \<and> configured maybe_ini ''behavior'' ''auto_type'' = Some ''maybe''
    \<and> boolean_word ''maybe'' = None
    \<and> load_config no_interpolation (Present (Inr maybe_ini)) =
         Inl (Exn ValueError ''Not a boolean: maybe''))
   \<and> (plain perhaps_ini
    \<and> boolean_option perhaps_ini ''behavior'' ''auto_type'' True = Some False
    \<and> configured perhaps_ini ''behavior'' ''notifications'' = Some ''perhaps''
    \<and> boolean_word ''perhaps'' = None
    \<and> load_config no_interpolation (Present (Inr perhaps_ini)) =
         Inl (Exn ValueError ''Not a boolean: perhaps''))"
  using load_config_defaults_and_errors
          [of no_interpolation "Exn ValueError []" custom_ini False True "''maybe''"]
        load_config_defaults_and_errors
          [of no_interpolation "Exn ValueError []" maybe_ini False True "''maybe''"]
        load_config_defaults_and_errors
          [of no_interpolation "Exn ValueError []" perhaps_ini False True "''perhaps''"]
  by (simp add: plain_def option_keys_def boolean_option_def text_option_def)

section \<open>The notifier\<close>

lemma notify_result:
  "notify g env title message icon timeout w =
     ((if notifications (CONFIG g)
       then (case spawn_error env (notify_argv title message icon timeout) of
               None \<Rightarrow> Returned | Some e \<Rightarrow> Raised e)
       else Returned),
      w\<lparr>trace := trace w @ notify_effects g env title message icon timeout\<rparr>)"
  by (simp add: notify_def subprocess_run_def notify_effects_def emit_def split: option.splits)


text \<open>
  C3, as the claim states it, fails: with notifications enabled and the command
  \<open>notify-send\<close> not installed, \<open>notify\<close> raises \<open>FileNotFoundError\<close> to its caller.
\<close>

theorem notify_raises_without_command:
  "fst (notify default_globals (no_notify_send_env [] None) ''Recording...''
          ''Release F12 when done'' ''audio-input-microphone'' 30000
          (init_world default_globals))
   = Raised (Exn FileNotFoundError ''[Errno 2] No such file or directory'')"
  by (simp add: notify_result notify_argv_def no_notify_send_env_def calm_env_def
        default_globals_def default_config_def)

text \<open>
  C3, amended. \<open>notify\<close> sends nothing and returns when notifications are disabled;
  when the command starts, \<open>notify\<close> returns whatever the command's exit status is (a
  failing command is discarded); an exception raised when the command is started, as
  when the command is absent, is not caught: \<open>notify\<close> raises it to its caller.
\<close>

theorem notify_discards_exit_status_only:
  "(\<not> notifications (CONFIG g) \<longrightarrow>
      notify g env title message icon timeout w = (Returned, w))
   \<and> (spawn_error env (notify_argv title message icon timeout) = None \<longrightarrow>
      fst (notify g env title message icon timeout w) = Returned)
   \<and> fst (notify g (env\<lparr>exit_status := st\<rparr>) title message icon timeout w)
       = fst (notify g env title message icon timeout w)
   \<and> (notifications (CONFIG g) \<and> spawn_error env (notify_argv title message icon timeout) = Some e
        \<longrightarrow> fst (notify g env title message icon timeout w) = Raised e)"
  by (simp add: notify_result notify_effects_def)

theorem notify_discards_exit_status_only_witness:
  "\<not> notifications (CONFIG silent_globals)
   \<and> notify silent_globals (calm_env [] None) ''Error'' ''Model failed to load'' ''dialog-error'' 3000
        (init_world silent_globals) = (Returned, init_world silent_globals)
   \<and> spawn_error (calm_env [] None) (notify_argv ''Error'' ''Model failed to load'' ''dialog-error'' 3000) = None
   \<and> fst (notify default_globals ((calm_env [] None)\<lparr>exit_status := (\<lambda>argv. 1)\<rparr>) ''Error''
             ''Model failed to load'' ''dialog-error'' 3000 (init_world default_globals)) = Returned
   \<and> notifications (CONFIG default_globals)
   \<and> spawn_error (no_notify_send_env [] None)
        (notify_argv ''Error'' ''Model failed to load'' ''dialog-error'' 3000)
       = Some (Exn FileNotFoundError ''[Errno 2] No such file or directory'')
   \<and> fst (notify default_globals (no_notify_send_env [] None) ''Error'' ''Model failed to load''
             ''dialog-error'' 3000 (init_world default_globals))
       = Raised (Exn FileNotFoundError ''[Errno 2] No such file or directory'')"
  using notify_discards_exit_status_only
          [of silent_globals "calm_env [] None" "''Error''" "''Model failed to load''"
              "''dialog-error''" 3000 "init_world silent_globals" "\<lambda>argv. 1"]
        notify_discards_exit_status_only
          [of default_globals "calm_env [] None" "''Error''" "''Model failed to load''"
              "''dialog-error''" 3000 "init_world default_globals" "\<lambda>argv. 1"]
        notify_discards_exit_status_only
          [of default_globals "no_notify_send_env [] None" "''Error''" "''Model failed to load''"
              "''dialog-error''" 3000 "init_world default_globals" "\<lambda>argv. 1"
              "Exn FileNotFoundError ''[Errno 2] No such file or directory''"]
  by (simp add: silent_globals_def default_globals_def default_config_def calm_env_def
        no_notify_send_env_def notify_argv_def)

section \<open>The guards of the handlers\<close>

text \<open>
  C6. A Down edge while the controller is recording, and an Up edge while it is not,
  return at once: the object and the surroundings are as before, and nothing is added
  to the trace.
\<close>

theorem edges_out_of_turn_are_noops:
  "(recording d \<longrightarrow> start_recording g env (d, w) = (Returned, d, w))
   \<and> (\<not> recording d \<longrightarrow> stop_recording g env (d, w) = (Returned, d, w))"
  by (simp add: start_recording_def stop_recording_def)

theorem edges_out_of_turn_are_noops_witness:
  "recording (init_dictation\<lparr>recording := True, record_process := Some 0\<rparr>)
   \<and> start_recording default_globals (calm_env [] None)
        (init_dictation\<lparr>recording := True, record_process := Some 0\<rparr>, init_world default_globals)
       = (Returned, init_dictation\<lparr>recording := True, record_process := Some 0\<rparr>,
          init_world default_globals)
   \<and> \<not> recording init_dictation
   \<and> stop_recording default_globals (calm_env [] None) (init_dictation, init_world default_globals)
       = (Returned, init_dictation, init_world default_globals)"
  using edges_out_of_turn_are_noops
          [of "init_dictation\<lparr>recording := True, record_process := Some 0\<rparr>" default_globals
              "calm_env [] None" "init_world default_globals"]
        edges_out_of_turn_are_noops
          [of init_dictation default_globals "calm_env [] None" "init_world default_globals"]
  by (simp add: init_dictation_def)

text \<open>After a load error with a non-empty message, a Down edge starts nothing.\<close>

lemma start_recording_refuses_after_error:
  "model_error d = Some msg \<Longrightarrow> msg \<noteq> [] \<Longrightarrow> start_recording g env (d, w) = (Returned, d, w)"
  by (simp add: start_recording_def truthy_def)

section \<open>Runs on concrete inputs\<close>

lemmas run_defs =
  run_events_def deliver_def start_recording_def stop_recording_def stop_capture_def
  transcribe_or_report_def
  try_statement_def try_body_def except_clause_def finally_clause_def dispatch_def
  wait_model_loaded_def load_step_def notify_def subprocess_run_def emit_def truthy_def
  init_dictation_def init_world_def calm_env_def no_notify_send_env_def
  default_globals_def silent_globals_def default_config_def
  cuda_failure_def memory_failure_def model_state_of_def new_effects_def

text \<open>
  C5, the code at the failing input. The construction of the engine raises an exception
  whose message is empty (\<open>MemoryError()\<close>), so \<open>model_error\<close> is the empty string:
  the model state is \<open>Failed\<close>. The Down edge that follows finds the controller idle and
  starts a recording all the same: a temporary file is created and a capture process
  is started.
\<close>

theorem recording_starts_after_load_error_without_message:
  "(case run_events default_globals
           [(LoaderStep, calm_env [] (Some (Inl memory_failure))),
            (LoaderStep, calm_env [] None),
            (Down, calm_env [] None)]
           (init_dictation, init_world default_globals)
    of (d, w) \<Rightarrow>
      model_state_of d = Failed [] \<and> model_loaded d
      \<and> recording d \<and> record_process d = Some 0 \<and> procs w = {0}
      \<and> files w = {''/tmp/tmpa.wav''})"
  by (simp add: run_defs Let_def)

text \<open>
  C1, the code at the failing input. A Down edge while the model is still loading starts
  a recording; the load then fails; the Up edge stops the capture, finds the error and
  returns before the \<open>try\<close> statement: the handling has ended, the temporary file is
  still there and no \<open>unlink\<close> was done.
\<close>

theorem temp_file_left_after_load_failure:
  "(case run_events default_globals
           [(Down, calm_env [''hello''] None),
            (Up, calm_env [''hello''] (Some (Inl cuda_failure)))]
           (init_dictation, init_world default_globals)
    of (d, w) \<Rightarrow>
      \<not> recording d \<and> record_process d = None \<and> procs w = {}
      \<and> temp_file d = Some ''/tmp/tmpa.wav''
      \<and> ''/tmp/tmpa.wav'' \<in> files w
      \<and> count_list (trace w) (Unlink ''/tmp/tmpa.wav'') = 0)"
  by (simp add: run_defs Let_def)

text \<open>
  C8, as the claim states it, fails: with notifications disabled in the configuration, a
  cycle whose transcription is empty sends no notification at all.
\<close>

theorem no_speech_without_notification:
  "(case run_events silent_globals
           [(Down, calm_env [] (Some (Inr 7))),
            (Up, calm_env [] (Some (Inr 7)))]
           (init_dictation, init_world silent_globals)
    of (d, w) \<Rightarrow>
      Transcribe 7 ''/tmp/tmpa.wav'' \<in> set (trace w)
      \<and> Print ''No speech detected'' \<in> set (trace w)
      \<and> \<not> list_ex is_notification (trace w))"
  by (simp add: run_defs Let_def transcript_def is_notification_def arecord_argv_def)

section \<open>What each block of \<open>stop_recording\<close> does to the surroundings\<close>

lemma notify_effects_cases:
  "notify_effects g env t m i n = [] \<or>
   notify_effects g env t m i n = [SpawnFailed (notify_argv t m i n)] \<or>
   notify_effects g env t m i n = [Ran (notify_argv t m i n) (exit_status env (notify_argv t m i n))]"
  by (simp add: notify_effects_def split: option.splits)

lemma command_notify [simp]:
  "command (SpawnFailed (notify_argv t m i n)) = Some ''notify-send''"
  "command (Ran (notify_argv t m i n) rc) = Some ''notify-send''"
  by (simp_all add: notify_argv_def)

lemma notify_effects_io: "e \<in> set (notify_effects g env t m i n) \<Longrightarrow> is_io e \<and> is_notification e"
  using notify_effects_cases[of g env t m i n] by (auto simp: is_notification_def notify_argv_def)

lemma wait_model_loaded_world:
  "wait_model_loaded g env (d, w) = Some (d', w') \<Longrightarrow>
   trace w' = trace w \<and> files w' = files w \<and> procs w' = procs w \<and> next_pid w' = next_pid w
   \<and> recording d' = recording d \<and> record_process d' = record_process d \<and> temp_file d' = temp_file d
   \<and> model_loaded d'"
  by (auto simp: wait_model_loaded_def load_step_def split: if_splits loader_pc.splits option.splits sum.splits)

lemma stop_capture_result:
  "stop_capture (d, w) =
     (d\<lparr>record_process := None\<rparr>,
      w\<lparr>procs := procs w - set_option (record_process d),
        trace := trace w @ stop_capture_effects (record_process d)\<rparr>)"
  by (cases "record_process d") (simp_all add: stop_capture_def stop_capture_effects_def emit_def)


lemma subprocess_run_result:
  "subprocess_run env argv w =
     ((case spawn_error env argv of None \<Rightarrow> Returned | Some e \<Rightarrow> Raised e),
      w\<lparr>trace := trace w @ [case spawn_error env argv of
                                None \<Rightarrow> Ran argv (exit_status env argv)
                              | Some e \<Rightarrow> SpawnFailed argv]\<rparr>)"
  by (simp add: subprocess_run_def emit_def split: option.splits)


lemma dispatch_result:
  "snd (dispatch g env text w) =
     w\<lparr>trace := trace w @
       (case spawn_error env (clipboard_argv g) of
          Some e \<Rightarrow> [SpawnFailed (clipboard_argv g)]
        | None \<Rightarrow>
            Piped (clipboard_argv g) text #
            (if auto_type (CONFIG g) then
               (case spawn_error env (typing_argv g text) of
                  Some e \<Rightarrow> [SpawnFailed (typing_argv g text)]
                | None \<Rightarrow>
                    Ran (typing_argv g text) (exit_status env (typing_argv g text)) #
                    Print (''Copied: '' @ text) #
                    notify_effects g env ''Copied!''
                      (take 100 text @ (if length text > 100 then ''...'' else []))
                      ''emblem-ok-symbolic'' 3000)
             else
               Print (''Copied: '' @ text) #
               notify_effects g env ''Copied!''
                 (take 100 text @ (if length text > 100 then ''...'' else []))
                 ''emblem-ok-symbolic'' 3000))\<rparr>"
  by (simp add: dispatch_def Let_def emit_def notify_result subprocess_run_result
        split: option.splits)

lemma dispatch_never_blocks: "fst (dispatch g env text w) \<noteq> Blocked"
  by (simp add: dispatch_def Let_def emit_def notify_result subprocess_run_result
        split: option.splits)

lemma dispatch_frame:
  "\<exists>es. snd (dispatch g env text w) = w\<lparr>trace := trace w @ es\<rparr>
        \<and> (\<forall>e\<in>set es. is_io e \<and> (\<forall>m p. e \<noteq> Transcribe m p))"
proof -
  let ?es = "(case spawn_error env (clipboard_argv g) of
          Some e \<Rightarrow> [SpawnFailed (clipboard_argv g)]
        | None \<Rightarrow>
            Piped (clipboard_argv g) text #
            (if auto_type (CONFIG g) then
               (case spawn_error env (typing_argv g text) of
                  Some e \<Rightarrow> [SpawnFailed (typing_argv g text)]
                | None \<Rightarrow>
                    Ran (typing_argv g text) (exit_status env (typing_argv g text)) #
                    Print (''Copied: '' @ text) #
                    notify_effects g env ''Copied!''
                      (take 100 text @ (if length text > 100 then ''...'' else []))
                      ''emblem-ok-symbolic'' 3000)
             else
               Print (''Copied: '' @ text) #
               notify_effects g env ''Copied!''
                 (take 100 text @ (if length text > 100 then ''...'' else []))
                 ''emblem-ok-symbolic'' 3000))"
  have "snd (dispatch g env text w) = w\<lparr>trace := trace w @ ?es\<rparr>"
    by (rule dispatch_result)
  moreover have "\<forall>e\<in>set ?es. is_io e \<and> (\<forall>m p. e \<noteq> Transcribe m p)"
    using notify_effects_cases[of g env "''Copied!''"
            "take 100 text @ (if length text > 100 then ''...'' else [])" "''emblem-ok-symbolic''" 3000]
    by (auto split: option.splits)
  ultimately show ?thesis by blast
qed

lemma try_body_never_blocks: "fst (try_body g env d w) \<noteq> Blocked"
  by (simp add: try_body_def Let_def notify_result dispatch_never_blocks
        split: option.splits sum.splits)

lemma try_body_frame:
  "\<exists>es. snd (try_body g env d w) = w\<lparr>trace := trace w @ es\<rparr>
        \<and> (\<forall>e\<in>set es. is_io e)
        \<and> (\<forall>m p. Transcribe m p \<in> set es \<longrightarrow> model d = Some m \<and> temp_file d = Some p)"
proof (cases "model d")
  case None
  then have "snd (try_body g env d w) = w\<lparr>trace := trace w @ []\<rparr>"
    by (simp add: try_body_def)
  then show ?thesis by fastforce
next
  case (Some m)
  note m = this
  show ?thesis
  proof (cases "temp_file d")
    case None
    then have "snd (try_body g env d w) = w\<lparr>trace := trace w @ []\<rparr>"
      using m by (simp add: try_body_def)
    then show ?thesis by fastforce
  next
    case (Some name)
    show ?thesis
    proof (cases "transcribe_result env m name")
      case (Inl e)
      then have "snd (try_body g env d w) = w\<lparr>trace := trace w @ [Transcribe m name]\<rparr>"
        using m Some by (simp add: try_body_def Let_def emit_def)
      then show ?thesis using m Some by fastforce
    next
      case (Inr segments)
      show ?thesis
      proof (cases "transcript segments = []")
        case True
        let ?es = "Transcribe m name # Print ''No speech detected'' #
                   notify_effects g env ''No speech detected'' ''Try speaking louder''
                     ''dialog-warning'' 2000"
        have "snd (try_body g env d w) = w\<lparr>trace := trace w @ ?es\<rparr>"
          using m Some Inr True by (simp add: try_body_def Let_def emit_def notify_result)
        moreover have "\<forall>e\<in>set ?es. is_io e"
          by (auto dest: notify_effects_io)
        moreover have "\<forall>m' p. Transcribe m' p \<in> set ?es \<longrightarrow> m' = m \<and> p = name"
          using notify_effects_cases[of g env "''No speech detected''" "''Try speaking louder''"
                  "''dialog-warning''" 2000] by auto
        ultimately show ?thesis using m Some by blast
      next
        case False
        obtain es where es: "snd (dispatch g env (transcript segments) (emit (Transcribe m name) w))
            = (emit (Transcribe m name) w)\<lparr>trace := trace (emit (Transcribe m name) w) @ es\<rparr>"
          "\<forall>e\<in>set es. is_io e \<and> (\<forall>m p. e \<noteq> Transcribe m p)"
          using dispatch_frame by blast
        have "snd (try_body g env d w) = w\<lparr>trace := trace w @ Transcribe m name # es\<rparr>"
          using m Some Inr False es(1) by (simp add: try_body_def Let_def emit_def)
        moreover have "\<forall>e\<in>set (Transcribe m name # es). is_io e"
          using es(2) by simp
        moreover have "\<forall>m' p. Transcribe m' p \<in> set (Transcribe m name # es) \<longrightarrow> m' = m \<and> p = name"
          using es(2) by auto
        ultimately show ?thesis using m Some by blast
      qed
    qed
  qed
qed

lemma except_clause_result:
  "except_clause g env e w =
     ((if notifications (CONFIG g)
       then (case spawn_error env (notify_argv ''Error'' (take 50 (str_exn e)) ''dialog-error'' 3000) of
               None \<Rightarrow> Returned | Some e' \<Rightarrow> Raised e')
       else Returned),
      w\<lparr>trace := trace w @ Print (''Error: '' @ str_exn e)
                     # notify_effects g env ''Error'' (take 50 (str_exn e)) ''dialog-error'' 3000\<rparr>)"
  by (simp add: except_clause_def notify_result emit_def)

lemma finally_clause_result:
  "finally_clause d w =
     w\<lparr>files := files w - set_option (temp_file d),
       trace := trace w @ (case temp_file d of
                             None \<Rightarrow> []
                           | Some name \<Rightarrow> if name \<in> files w then [Unlink name] else [])\<rparr>"
  by (cases "temp_file d") (auto simp: finally_clause_def emit_def)

lemma try_statement_never_blocks: "fst (try_statement g env d w) \<noteq> Blocked"
  using try_body_never_blocks[of g env d w]
  by (cases "try_body g env d w")
     (auto simp: try_statement_def except_clause_result split: outcome.splits option.splits)

lemma try_statement_frame:
  "\<exists>es. snd (try_statement g env d w) = finally_clause d (w\<lparr>trace := trace w @ es\<rparr>)
        \<and> (\<forall>e\<in>set es. is_io e)
        \<and> (\<forall>m p. Transcribe m p \<in> set es \<longrightarrow> model d = Some m \<and> temp_file d = Some p)"
proof -
  obtain es where es: "snd (try_body g env d w) = w\<lparr>trace := trace w @ es\<rparr>"
    "\<forall>e\<in>set es. is_io e"
    "\<forall>m p. Transcribe m p \<in> set es \<longrightarrow> model d = Some m \<and> temp_file d = Some p"
    using try_body_frame by blast
  obtain r w1 where rw: "try_body g env d w = (r, w1)" by (cases "try_body g env d w")
  with es have w1: "w1 = w\<lparr>trace := trace w @ es\<rparr>" by simp
  show ?thesis
  proof (cases "\<exists>e. r = Raised e")
    case False
    then have "snd (try_statement g env d w) = finally_clause d (w\<lparr>trace := trace w @ es\<rparr>)"
      using rw w1 by (cases r) (simp_all add: try_statement_def)
    then show ?thesis using es(2,3) by blast
  next
    case True
    then obtain e where e: "r = Raised e" by blast
    let ?es = "es @ Print (''Error: '' @ str_exn e)
                     # notify_effects g env ''Error'' (take 50 (str_exn e)) ''dialog-error'' 3000"
    have "snd (try_statement g env d w) = finally_clause d (w\<lparr>trace := trace w @ ?es\<rparr>)"
      using e rw w1 by (simp add: try_statement_def except_clause_result)
    moreover have "\<forall>x\<in>set ?es. is_io x"
      using es(2) by (auto dest: notify_effects_io)
    moreover have "\<forall>m p. Transcribe m p \<in> set ?es \<longrightarrow> model d = Some m \<and> temp_file d = Some p"
      using es(3) notify_effects_cases[of g env "''Error''" "take 50 (str_exn e)" "''dialog-error''" 3000]
      by auto
    ultimately show ?thesis by blast
  qed
qed

section \<open>The shape of a call of \<open>stop_recording\<close>\<close>

text \<open>
  A call of \<open>stop_recording\<close> while recording: the capture is stopped, the line is
  printed and the notifier called; then either the call ends there (the notifier raised,
  or the wait never returns), or the wait returns and lines 192 to 240 run.
\<close>

lemma stop_recording_decompose:
  assumes rec: "recording d" and run: "stop_recording g env (d, w) = (r, d', w')"
  shows "(r \<noteq> Returned
          \<and> trace w' = trace w @ stop_capture_effects (record_process d)
                @ Print ''Transcribing...''
                # notify_effects g env ''Transcribing...'' ''Processing your speech''
                    ''emblem-synchronizing'' 30000
          \<and> files w' = files w \<and> procs w' = procs w - set_option (record_process d)
          \<and> next_pid w' = next_pid w
          \<and> d' = d\<lparr>recording := False, record_process := None\<rparr>)
       \<or> (\<exists>d3 w6. transcribe_or_report g env (d3, w6) = (r, d', w')
          \<and> trace w6 = trace w @ stop_capture_effects (record_process d)
                @ Print ''Transcribing...''
                # notify_effects g env ''Transcribing...'' ''Processing your speech''
                    ''emblem-synchronizing'' 30000 @ [AwaitModel]
          \<and> files w6 = files w \<and> procs w6 = procs w - set_option (record_process d)
          \<and> next_pid w6 = next_pid w
          \<and> \<not> recording d3 \<and> record_process d3 = None \<and> temp_file d3 = temp_file d
          \<and> model_loaded d3)"
proof -
  let ?sfx = "stop_capture_effects (record_process d)"
  let ?nfx = "notify_effects g env ''Transcribing...'' ''Processing your speech''
                ''emblem-synchronizing'' 30000"
  let ?d2 = "d\<lparr>recording := False, record_process := None\<rparr>"
  let ?w4 = "w\<lparr>procs := procs w - set_option (record_process d),
              trace := trace w @ ?sfx @ Print ''Transcribing...'' # ?nfx\<rparr>"
  let ?ne = "spawn_error env (notify_argv ''Transcribing...'' ''Processing your speech''
                ''emblem-synchronizing'' 30000)"
  show ?thesis
  proof (cases "notifications (CONFIG g) \<and> ?ne \<noteq> None")
    case True
    then obtain e where "?ne = Some e" by blast
    then have "(r, d', w') = (Raised e, ?d2, ?w4)"
      using run rec True
      by (simp add: stop_recording_def stop_capture_result notify_result emit_def)
    then show ?thesis by auto
  next
    case False
    then have unfold: "stop_recording g env (d, w) =
             (case wait_model_loaded g env (?d2, ?w4) of
                None \<Rightarrow> (Blocked, ?d2, ?w4)
              | Some (d3, w5) \<Rightarrow> transcribe_or_report g env (d3, emit AwaitModel w5))"
      using rec
      by (auto simp: stop_recording_def stop_capture_result notify_result emit_def
            split: option.splits)
    show ?thesis
    proof (cases "wait_model_loaded g env (?d2, ?w4)")
      case None
      then have "(r, d', w') = (Blocked, ?d2, ?w4)"
        using run unfold by simp
      then show ?thesis by auto
    next
      case (Some s)
      obtain d3 w5 where s: "s = (d3, w5)" by (cases s)
      note wm = wait_model_loaded_world[OF Some[unfolded s]]
      have 1: "transcribe_or_report g env (d3, emit AwaitModel w5) = (r, d', w')"
        using run unfold Some s by simp
      have 2: "trace (emit AwaitModel w5) = trace w @ ?sfx @ Print ''Transcribing...'' # ?nfx @ [AwaitModel]"
        "files (emit AwaitModel w5) = files w"
        "procs (emit AwaitModel w5) = procs w - set_option (record_process d)"
        "next_pid (emit AwaitModel w5) = next_pid w"
        using wm by (simp_all add: emit_def)
      have 3: "\<not> recording d3" "record_process d3 = None" "temp_file d3 = temp_file d"
        "model_loaded d3"
        using wm by simp_all
      from 1 2 3 show ?thesis by blast
    qed
  qed
qed

lemma transcribe_or_report_shape:
  assumes run: "transcribe_or_report g env (d, w) = (r, d', w')"
  shows "\<exists>es. trace w' = trace w @ es
             \<and> (\<forall>e\<in>set es. is_io e \<or> (\<exists>n. e = Unlink n))
             \<and> (\<forall>m p. Transcribe m p \<in> set es \<longrightarrow>
                    \<not> truthy (model_error d) \<and> model d = Some m \<and> temp_file d = Some p)
             \<and> procs w' = procs w \<and> next_pid w' = next_pid w \<and> d' = d \<and> r \<noteq> Blocked"
proof (cases "truthy (model_error d)")
  case True
  let ?es = "Print ''Cannot transcribe: model failed to load''
             # notify_effects g env ''Error'' ''Model failed to load'' ''dialog-error'' 3000"
  have res: "d' = d" "w' = w\<lparr>trace := trace w @ ?es\<rparr>" "r \<noteq> Blocked"
    using run True
    by (auto simp: transcribe_or_report_def notify_result emit_def split: option.splits if_splits)
  have 1: "trace w' = trace w @ ?es" using res by simp
  have 2: "\<forall>e\<in>set ?es. is_io e \<or> (\<exists>n. e = Unlink n)"
    by (auto dest: notify_effects_io)
  have 3: "\<forall>m p. Transcribe m p \<notin> set ?es"
    using notify_effects_cases[of g env "''Error''" "''Model failed to load''" "''dialog-error''" 3000]
    by auto
  have 4: "procs w' = procs w" "next_pid w' = next_pid w"
    using res by simp_all
  from 1 2 3 4 res(1,3) show ?thesis by blast
next
  case False
  obtain es where es: "snd (try_statement g env d w) = finally_clause d (w\<lparr>trace := trace w @ es\<rparr>)"
    "\<forall>e\<in>set es. is_io e"
    "\<forall>m p. Transcribe m p \<in> set es \<longrightarrow> model d = Some m \<and> temp_file d = Some p"
    using try_statement_frame by blast
  let ?u = "(case temp_file d of None \<Rightarrow> []
             | Some name \<Rightarrow> if name \<in> files w then [Unlink name] else [])"
  have res: "d' = d" "w' = snd (try_statement g env d w)" "r = fst (try_statement g env d w)"
    using run False by (simp_all add: transcribe_or_report_def Let_def split: prod.splits)
  have 0: "r \<noteq> Blocked" using res(3) try_statement_never_blocks by simp
  have 1: "trace w' = trace w @ (es @ ?u)"
    using res(2) es(1) by (simp add: finally_clause_result split: option.splits)
  have 2: "\<forall>e\<in>set (es @ ?u). is_io e \<or> (\<exists>n. e = Unlink n)"
    using es(2) by (auto split: option.splits if_splits)
  have 3: "\<forall>m p. Transcribe m p \<in> set (es @ ?u) \<longrightarrow>
              \<not> truthy (model_error d) \<and> model d = Some m \<and> temp_file d = Some p"
    using es(3) False by (auto split: option.splits if_splits)
  have 4: "procs w' = procs w" "next_pid w' = next_pid w"
    using res es(1) by (simp_all add: finally_clause_result)
  from 0 1 2 3 4 res(1) show ?thesis by blast
qed

lemma stop_recording_shape:
  assumes rec: "recording d" and run: "stop_recording g env (d, w) = (r, d', w')"
  shows "\<exists>rest. trace w' = trace w @ stop_capture_effects (record_process d)
                     @ Print ''Transcribing...''
                     # notify_effects g env ''Transcribing...'' ''Processing your speech''
                         ''emblem-synchronizing'' 30000 @ rest
     \<and> (rest = [] \<or>
         (\<exists>es. rest = AwaitModel # es \<and> model_loaded d'
             \<and> (\<forall>e\<in>set es. is_io e \<or> (\<exists>n. e = Unlink n))
             \<and> (\<forall>m p. Transcribe m p \<in> set es \<longrightarrow>
                    \<not> truthy (model_error d') \<and> model d' = Some m \<and> temp_file d' = Some p)))
     \<and> procs w' = procs w - set_option (record_process d) \<and> next_pid w' = next_pid w
     \<and> \<not> recording d' \<and> record_process d' = None \<and> temp_file d' = temp_file d"
proof -
  let ?pre = "stop_capture_effects (record_process d)
                @ Print ''Transcribing...''
                # notify_effects g env ''Transcribing...'' ''Processing your speech''
                    ''emblem-synchronizing'' 30000"
  from stop_recording_decompose[OF rec run]
  consider (ended) "trace w' = trace w @ ?pre" "procs w' = procs w - set_option (record_process d)"
      "next_pid w' = next_pid w" "d' = d\<lparr>recording := False, record_process := None\<rparr>"
    | (went_on) d3 w6 where "transcribe_or_report g env (d3, w6) = (r, d', w')"
      "trace w6 = trace w @ ?pre @ [AwaitModel]"
      "procs w6 = procs w - set_option (record_process d)" "next_pid w6 = next_pid w"
      "\<not> recording d3" "record_process d3 = None" "temp_file d3 = temp_file d" "model_loaded d3"
    by auto
  then show ?thesis
  proof cases
    case ended
    then have "trace w' = trace w @ stop_capture_effects (record_process d)
                     @ Print ''Transcribing...''
                     # notify_effects g env ''Transcribing...'' ''Processing your speech''
                         ''emblem-synchronizing'' 30000 @ []"
      and "\<not> recording d'" and "record_process d' = None" and "temp_file d' = temp_file d"
      by simp_all
    with ended(2,3) show ?thesis by blast
  next
    case went_on
    from transcribe_or_report_shape[OF went_on(1)]
    obtain es where es: "trace w' = trace w6 @ es"
      "\<forall>e\<in>set es. is_io e \<or> (\<exists>n. e = Unlink n)"
      "\<forall>m p. Transcribe m p \<in> set es \<longrightarrow>
            \<not> truthy (model_error d3) \<and> model d3 = Some m \<and> temp_file d3 = Some p"
      "procs w' = procs w6" "next_pid w' = next_pid w6" "d' = d3"
      by blast
    have 1: "trace w' = trace w @ stop_capture_effects (record_process d)
                     @ Print ''Transcribing...''
                     # notify_effects g env ''Transcribing...'' ''Processing your speech''
                         ''emblem-synchronizing'' 30000 @ AwaitModel # es"
      using es(1) went_on(2) by simp
    have 4: "procs w' = procs w - set_option (record_process d)" "next_pid w' = next_pid w"
      "\<not> recording d'" "record_process d' = None" "temp_file d' = temp_file d" "model_loaded d'"
      using es(4,5,6) went_on by simp_all
    from 1 es(2) es(3)[unfolded es(6)[symmetric]] 4 show ?thesis by blast
  qed
qed

section \<open>Cycles whose transcription ran\<close>

lemma new_effects_append [simp]: "trace w' = trace w @ es \<Longrightarrow> new_effects w w' = es"
  by (simp add: new_effects_def)

lemma notify_effects_no_dispatch:
  "e \<in> set (notify_effects g env t m i n) \<Longrightarrow> \<not> is_dispatch e"
  using notify_effects_cases[of g env t m i n]
  by (auto simp: is_dispatch_def notify_argv_def)

lemma stop_capture_effects_plain:
  "e \<in> set (stop_capture_effects p) \<Longrightarrow>
   \<not> is_dispatch e \<and> \<not> is_notification e \<and> (\<forall>m n. e \<noteq> Transcribe m n)"
  by (cases p) (auto simp: stop_capture_effects_def is_dispatch_def is_notification_def)

text \<open>
  If the engine was called during a call of \<open>stop_recording\<close>, the call went through
  the wait and into the \<open>try\<close> statement, and the engine and the file are the object's.
\<close>

lemma transcription_ran:
  assumes rec: "recording d" and run: "stop_recording g env (d, w) = (r, d', w')"
    and tr: "Transcribe m name \<in> set (new_effects w w')"
  shows "\<exists>d3 w6. transcribe_or_report g env (d3, w6) = (r, d', w')
          \<and> trace w6 = trace w @ stop_capture_effects (record_process d)
                @ Print ''Transcribing...''
                # notify_effects g env ''Transcribing...'' ''Processing your speech''
                    ''emblem-synchronizing'' 30000 @ [AwaitModel]
          \<and> files w6 = files w \<and> temp_file d3 = temp_file d \<and> model_loaded d3
          \<and> \<not> truthy (model_error d3) \<and> model d3 = Some m \<and> temp_file d3 = Some name"
proof -
  let ?pre = "stop_capture_effects (record_process d)
                @ Print ''Transcribing...''
                # notify_effects g env ''Transcribing...'' ''Processing your speech''
                    ''emblem-synchronizing'' 30000"
  have pre: "Transcribe m name \<notin> set ?pre"
    using notify_effects_cases[of g env "''Transcribing...''" "''Processing your speech''"
            "''emblem-synchronizing''" 30000]
    by (auto dest: stop_capture_effects_plain)
  from stop_recording_decompose[OF rec run]
  consider (ended) "trace w' = trace w @ ?pre"
    | (went_on) d3 w6 where "transcribe_or_report g env (d3, w6) = (r, d', w')"
      "trace w6 = trace w @ ?pre @ [AwaitModel]" "files w6 = files w"
      "temp_file d3 = temp_file d" "model_loaded d3"
    by auto
  then show ?thesis
  proof cases
    case ended
    then have "new_effects w w' = ?pre" by simp
    with tr pre show ?thesis by simp
  next
    case went_on
    from transcribe_or_report_shape[OF went_on(1)]
    obtain es where es: "trace w' = trace w6 @ es"
      "\<forall>m p. Transcribe m p \<in> set es \<longrightarrow>
            \<not> truthy (model_error d3) \<and> model d3 = Some m \<and> temp_file d3 = Some p"
      by blast
    have "new_effects w w' = ?pre @ AwaitModel # es"
      using es(1) went_on(2) by simp
    with tr pre have "Transcribe m name \<in> set es" by auto
    with es(2) have "\<not> truthy (model_error d3)" "model d3 = Some m" "temp_file d3 = Some name"
      by blast+
    with went_on show ?thesis by auto
  qed
qed

text \<open>Lines 192 to 240 when the engine returns segments whose transcript is empty.\<close>

lemma transcribe_or_report_no_speech:
  assumes "\<not> truthy (model_error d)" "model d = Some m" "temp_file d = Some name"
    and "transcribe_result env m name = Inr segments" "transcript segments = []"
    and "transcribe_or_report g env (d, w) = (r, d', w')"
  shows "trace w' = trace w @ Transcribe m name # Print ''No speech detected''
           # notify_effects g env ''No speech detected'' ''Try speaking louder''
               ''dialog-warning'' 2000
           @ (case (if notifications (CONFIG g)
                    then spawn_error env (notify_argv ''No speech detected''
                           ''Try speaking louder'' ''dialog-warning'' 2000)
                    else None) of
                None \<Rightarrow> []
              | Some e \<Rightarrow> Print (''Error: '' @ str_exn e)
                         # notify_effects g env ''Error'' (take 50 (str_exn e)) ''dialog-error'' 3000)
           @ (if name \<in> files w then [Unlink name] else [])"
  using assms
  by (auto simp: transcribe_or_report_def try_statement_def try_body_def Let_def emit_def
        notify_result except_clause_result finally_clause_result
        split: option.splits)

text \<open>
  C8, amended. In every recording cycle whose transcription ran and gave the empty
  string, the output dispatcher is not invoked (no clipboard command and no typing
  command is started or tried), the line "No speech detected" is printed, and the
  "No speech detected" notification is sent (or its sending tried) when notifications
  are enabled; when they are disabled no notification is sent.
\<close>

theorem no_speech_cycle:
  assumes "recording d" and "stop_recording g env (d, w) = (r, d', w')"
    and "Transcribe m name \<in> set (new_effects w w')"
    and "transcribe_result env m name = Inr segments" and "transcript segments = []"
  shows "\<not> list_ex is_dispatch (new_effects w w')
    \<and> Print ''No speech detected'' \<in> set (new_effects w w')
    \<and> (notifications (CONFIG g) \<longrightarrow>
         Ran (notify_argv ''No speech detected'' ''Try speaking louder'' ''dialog-warning'' 2000)
             (exit_status env (notify_argv ''No speech detected'' ''Try speaking louder''
                ''dialog-warning'' 2000)) \<in> set (new_effects w w')
         \<or> SpawnFailed (notify_argv ''No speech detected'' ''Try speaking louder''
              ''dialog-warning'' 2000) \<in> set (new_effects w w'))
    \<and> (\<not> notifications (CONFIG g) \<longrightarrow> \<not> list_ex is_notification (new_effects w w'))"
proof -
  let ?pre = "stop_capture_effects (record_process d)
                @ Print ''Transcribing...''
                # notify_effects g env ''Transcribing...'' ''Processing your speech''
                    ''emblem-synchronizing'' 30000"
  let ?nfx = "notify_effects g env ''No speech detected'' ''Try speaking louder''
               ''dialog-warning'' 2000"
  let ?exc = "(case (if notifications (CONFIG g)
                    then spawn_error env (notify_argv ''No speech detected''
                           ''Try speaking louder'' ''dialog-warning'' 2000)
                    else None) of
                None \<Rightarrow> []
              | Some e \<Rightarrow> Print (''Error: '' @ str_exn e)
                         # notify_effects g env ''Error'' (take 50 (str_exn e)) ''dialog-error'' 3000)"
  from transcription_ran[OF assms(1,2,3)]
  obtain d3 w6 where a: "transcribe_or_report g env (d3, w6) = (r, d', w')"
    "trace w6 = trace w @ ?pre @ [AwaitModel]" "files w6 = files w"
    "\<not> truthy (model_error d3)" "model d3 = Some m" "temp_file d3 = Some name"
    by auto
  let ?u = "if name \<in> files w6 then [Unlink name] else []"
  have "trace w' = trace w6 @ Transcribe m name # Print ''No speech detected'' # ?nfx @ ?exc @ ?u"
    using transcribe_or_report_no_speech[OF a(4,5,6) assms(4,5) a(1)] by simp
  then have new: "new_effects w w' =
      ?pre @ AwaitModel # Transcribe m name # Print ''No speech detected'' # ?nfx @ ?exc @ ?u"
    using a(2) by simp
  have exc_nd: "\<forall>e\<in>set ?exc. \<not> is_dispatch e"
    by (auto simp: is_dispatch_def dest: notify_effects_no_dispatch split: option.splits if_splits)
  have pre_nd: "\<forall>e\<in>set ?pre. \<not> is_dispatch e"
    by (auto simp: is_dispatch_def dest: notify_effects_no_dispatch stop_capture_effects_plain)
  have 1: "\<not> list_ex is_dispatch (new_effects w w')"
    using exc_nd pre_nd
    by (auto simp: new list_ex_iff is_dispatch_def dest: notify_effects_no_dispatch)
  have 2: "Print ''No speech detected'' \<in> set (new_effects w w')"
    by (simp add: new)
  have 3: "Ran (notify_argv ''No speech detected'' ''Try speaking louder'' ''dialog-warning'' 2000)
             (exit_status env (notify_argv ''No speech detected'' ''Try speaking louder''
                ''dialog-warning'' 2000)) \<in> set (new_effects w w')
         \<or> SpawnFailed (notify_argv ''No speech detected'' ''Try speaking louder''
              ''dialog-warning'' 2000) \<in> set (new_effects w w')"
    if "notifications (CONFIG g)"
    using that by (auto simp: new notify_effects_def split: option.splits)
  have 4: "\<not> list_ex is_notification (new_effects w w')" if "\<not> notifications (CONFIG g)"
    using that
    by (auto simp: new list_ex_iff notify_effects_def is_notification_def
          dest: stop_capture_effects_plain)
  from 1 2 3 4 show ?thesis by blast
qed

lemma recording_state_value:
  "recording_state g =
     (init_dictation\<lparr>recording := True, temp_file := Some ''/tmp/tmpa.wav'',
                      record_process := Some 0\<rparr>,
      (init_world g)\<lparr>files := {''/tmp/tmpa.wav''}, procs := {0}, next_pid := Suc 0,
         trace := trace (init_world g)
           @ MkTemp ''/tmp/tmpa.wav'' # Popen (arecord_argv ''/tmp/tmpa.wav'') 0
           # Print ''Recording...''
           # notify_effects g (calm_env [] None) ''Recording...''
               (''Release '' @ upper (key (CONFIG g)) @ '' when done'')
               ''audio-input-microphone'' 30000\<rparr>)"
  by (simp add: recording_state_def run_events_def deliver_def start_recording_def Let_def
        notify_result emit_def truthy_def init_dictation_def init_world_def calm_env_def)

theorem no_speech_cycle_witness:
  "recording (fst (recording_state default_globals))
   \<and> Transcribe 7 ''/tmp/tmpa.wav''
       \<in> set (new_effects (snd (recording_state default_globals))
                (snd (snd (stop_recording default_globals (calm_env [] (Some (Inr 7)))
                             (recording_state default_globals)))))
   \<and> transcribe_result (calm_env [] (Some (Inr 7))) 7 ''/tmp/tmpa.wav'' = Inr []
   \<and> transcript [] = []
   \<and> notifications (CONFIG default_globals)
   \<and> \<not> list_ex is_dispatch
         (new_effects (snd (recording_state default_globals))
            (snd (snd (stop_recording default_globals (calm_env [] (Some (Inr 7)))
                         (recording_state default_globals)))))
   \<and> Print ''No speech detected''
       \<in> set (new_effects (snd (recording_state default_globals))
                (snd (snd (stop_recording default_globals (calm_env [] (Some (Inr 7)))
                             (recording_state default_globals)))))
   \<and> Ran (notify_argv ''No speech detected'' ''Try speaking louder'' ''dialog-warning'' 2000) 0
       \<in> set (new_effects (snd (recording_state default_globals))
                (snd (snd (stop_recording default_globals (calm_env [] (Some (Inr 7)))
                             (recording_state default_globals)))))
   \<and> recording (fst (recording_state silent_globals))
   \<and> Transcribe 7 ''/tmp/tmpa.wav''
       \<in> set (new_effects (snd (recording_state silent_globals))
                (snd (snd (stop_recording silent_globals (calm_env [] (Some (Inr 7)))
                             (recording_state silent_globals)))))
   \<and> notifications (CONFIG silent_globals) = False
   \<and> list_ex is_notification
         (new_effects (snd (recording_state silent_globals))
            (snd (snd (stop_recording silent_globals (calm_env [] (Some (Inr 7)))
                         (recording_state silent_globals))))) = False"
proof -
  let ?E = "calm_env [] (Some (Inr 7))"
  let ?s = "recording_state default_globals"
  let ?R = "stop_recording default_globals ?E ?s"
  let ?new = "new_effects (snd ?s) (snd (snd ?R))"
  let ?s' = "recording_state silent_globals"
  let ?R' = "stop_recording silent_globals ?E ?s'"
  let ?new' = "new_effects (snd ?s') (snd (snd ?R'))"
  have tr: "Transcribe 7 ''/tmp/tmpa.wav'' \<in> set ?new"
    by (simp add: recording_state_value run_defs notify_effects_def transcript_def Let_def)
  have rec: "recording (fst ?s)"
    by (simp add: recording_state_value)
  have run: "stop_recording default_globals ?E (fst ?s, snd ?s) = (fst ?R, fst (snd ?R), snd (snd ?R))"
    by simp
  have res: "transcribe_result ?E 7 ''/tmp/tmpa.wav'' = Inr []"
    by (simp add: calm_env_def)
  have emp: "transcript [] = []"
    by (simp add: transcript_def)
  have n: "notifications (CONFIG default_globals)"
    by (simp add: default_globals_def default_config_def)
  have nf: "SpawnFailed (notify_argv ''No speech detected'' ''Try speaking louder'' ''dialog-warning'' 2000)
       \<notin> set ?new"
    by (simp add: recording_state_value run_defs notify_effects_def transcript_def Let_def)
  have ex: "exit_status ?E (notify_argv ''No speech detected'' ''Try speaking louder''
              ''dialog-warning'' 2000) = 0"
    by (simp add: calm_env_def)
  note T = no_speech_cycle[OF rec run tr res emp]
  from T have 1: "\<not> list_ex is_dispatch ?new" and 2: "Print ''No speech detected'' \<in> set ?new"
    by blast+
  from T n nf have 3: "Ran (notify_argv ''No speech detected'' ''Try speaking louder''
                            ''dialog-warning'' 2000) 0 \<in> set ?new"
    by (simp add: ex)
  have tr': "Transcribe 7 ''/tmp/tmpa.wav'' \<in> set ?new'"
    by (simp add: recording_state_value run_defs notify_effects_def transcript_def Let_def)
  have rec': "recording (fst ?s')"
    by (simp add: recording_state_value)
  have run': "stop_recording silent_globals ?E (fst ?s', snd ?s') = (fst ?R', fst (snd ?R'), snd (snd ?R'))"
    by simp
  have n': "notifications (CONFIG silent_globals) = False"
    by (simp add: silent_globals_def default_config_def)
  note T' = no_speech_cycle[OF rec' run' tr' res emp]
  from T' n' have 4: "list_ex is_notification ?new' = False" by simp
  from rec tr res emp n 1 2 3 rec' tr' n' 4 show ?thesis
    by - (intro conjI; assumption)
qed

section \<open>Whitespace-only transcripts\<close>

lemma join_empty_texts: "join '' '' ([] # replicate n []) = replicate n (CHR '' '')"
  by (induction n) simp_all

lemma map_strip_all_empty:
  "\<forall>s\<in>set segments. strip s = [] \<Longrightarrow> map strip segments = replicate (length segments) []"
  by (induction segments) simp_all

lemma transcript_of_blank_segments:
  assumes "2 \<le> length segments" and "\<forall>s\<in>set segments. strip s = []"
  shows "transcript segments = replicate (length segments - 1) (CHR '' '')"
proof -
  obtain n where n: "length segments = Suc n" using assms(1) by (cases "length segments") auto
  then show ?thesis
    using map_strip_all_empty[OF assms(2)] by (simp add: transcript_def join_empty_texts)
qed

text \<open>
  Lines 192 to 240 when the engine returns segments whose transcript is truthy: the
  engine's call is followed by the effects of the dispatch.
\<close>

lemma transcribe_or_report_speech:
  assumes "\<not> truthy (model_error d)" "model d = Some m" "temp_file d = Some name"
    and "transcribe_result env m name = Inr segments" "transcript segments \<noteq> []"
    and "transcribe_or_report g env (d, w) = (r, d', w')"
  shows "\<exists>tail. trace w' = trace w @ Transcribe m name
           # new_effects (emit (Transcribe m name) w)
               (snd (dispatch g env (transcript segments) (emit (Transcribe m name) w)))
           @ tail"
proof -
  let ?w1 = "emit (Transcribe m name) w"
  let ?text = "transcript segments"
  obtain es where es: "snd (dispatch g env ?text ?w1) = ?w1\<lparr>trace := trace ?w1 @ es\<rparr>"
    using dispatch_frame by blast
  then have ne: "new_effects ?w1 (snd (dispatch g env ?text ?w1)) = es"
    by (simp add: new_effects_def)
  obtain r1 w2 where d: "dispatch g env ?text ?w1 = (r1, w2)" by (cases "dispatch g env ?text ?w1")
  with es have w2: "w2 = w\<lparr>trace := trace w @ Transcribe m name # es\<rparr>"
    by (simp add: emit_def)
  have tb: "try_body g env d w = (r1, w2)"
    using assms(2,3,4,5) d by (simp add: try_body_def Let_def)
  have "\<exists>tail. trace (snd (try_statement g env d w)) = trace w @ Transcribe m name # es @ tail"
    using tb w2
    by (cases r1)
       (auto simp: try_statement_def except_clause_result finally_clause_result
             split: option.splits)
  moreover have "w' = snd (try_statement g env d w)"
    using assms(1,6) by (simp add: transcribe_or_report_def Let_def split: prod.splits)
  ultimately show ?thesis using ne by simp
qed

text \<open>
  C10. When the engine returns two or more segments that each trim to the empty string,
  the transcript is the single spaces between them: not empty, and whitespace only. The
  cycle treats it as speech: the clipboard command is started with it (or its start is
  tried), and when it starts and \<open>AUTO_TYPE\<close> is set, the typing command is run with it
  (or its start is tried).
\<close>

theorem whitespace_transcript_is_dispatched:
  assumes "recording d" and "stop_recording g env (d, w) = (r, d', w')"
    and "Transcribe m name \<in> set (new_effects w w')"
    and "transcribe_result env m name = Inr segments"
    and "2 \<le> length segments" and "\<forall>s\<in>set segments. strip s = []"
  shows "transcript segments = replicate (length segments - 1) (CHR '' '')
    \<and> transcript segments \<noteq> []
    \<and> (\<forall>c\<in>set (transcript segments). is_space c)
    \<and> (Piped (clipboard_argv g) (transcript segments) \<in> set (new_effects w w')
        \<or> SpawnFailed (clipboard_argv g) \<in> set (new_effects w w'))
    \<and> (spawn_error env (clipboard_argv g) = None \<longrightarrow>
          Piped (clipboard_argv g) (transcript segments) \<in> set (new_effects w w'))
    \<and> (spawn_error env (clipboard_argv g) = None \<and> auto_type (CONFIG g) \<longrightarrow>
          Ran (typing_argv g (transcript segments))
              (exit_status env (typing_argv g (transcript segments))) \<in> set (new_effects w w')
          \<or> SpawnFailed (typing_argv g (transcript segments)) \<in> set (new_effects w w'))"
proof -
  let ?text = "transcript segments"
  have t: "?text = replicate (length segments - 1) (CHR '' '')"
    by (rule transcript_of_blank_segments[OF assms(5,6)])
  have ne: "?text \<noteq> []"
    using t assms(5) by auto
  have sp: "\<forall>c\<in>set ?text. is_space c"
    by (subst t) (simp add: is_space_def)
  from transcription_ran[OF assms(1,2,3)]
  obtain d3 w6 where a: "transcribe_or_report g env (d3, w6) = (r, d', w')"
    "\<exists>pre. trace w6 = trace w @ pre"
    "\<not> truthy (model_error d3)" "model d3 = Some m" "temp_file d3 = Some name"
    by blast
  from a(2) obtain pre where pre: "trace w6 = trace w @ pre" by blast
  let ?w1 = "emit (Transcribe m name) w6"
  let ?D = "new_effects ?w1 (snd (dispatch g env ?text ?w1))"
  from transcribe_or_report_speech[OF a(3,4,5) assms(4) ne a(1)]
  obtain tail where "trace w' = trace w6 @ Transcribe m name # ?D @ tail" by blast
  then have new: "new_effects w w' = pre @ Transcribe m name # ?D @ tail"
    using pre by simp
  have D: "?D = (case spawn_error env (clipboard_argv g) of
          Some e \<Rightarrow> [SpawnFailed (clipboard_argv g)]
        | None \<Rightarrow>
            Piped (clipboard_argv g) ?text #
            (if auto_type (CONFIG g) then
               (case spawn_error env (typing_argv g ?text) of
                  Some e \<Rightarrow> [SpawnFailed (typing_argv g ?text)]
                | None \<Rightarrow>
                    Ran (typing_argv g ?text) (exit_status env (typing_argv g ?text)) #
                    Print (''Copied: '' @ ?text) #
                    notify_effects g env ''Copied!''
                      (take 100 ?text @ (if length ?text > 100 then ''...'' else []))
                      ''emblem-ok-symbolic'' 3000)
             else
               Print (''Copied: '' @ ?text) #
               notify_effects g env ''Copied!''
                 (take 100 ?text @ (if length ?text > 100 then ''...'' else []))
                 ''emblem-ok-symbolic'' 3000))"
    by (simp add: dispatch_result new_effects_def)
  have 1: "Piped (clipboard_argv g) ?text \<in> set ?D \<or> SpawnFailed (clipboard_argv g) \<in> set ?D"
    by (subst (1 2) D) (simp split: option.splits)
  have 2: "Piped (clipboard_argv g) ?text \<in> set ?D" if "spawn_error env (clipboard_argv g) = None"
    using that by (subst D) simp
  have 3: "Ran (typing_argv g ?text) (exit_status env (typing_argv g ?text)) \<in> set ?D
          \<or> SpawnFailed (typing_argv g ?text) \<in> set ?D"
    if "spawn_error env (clipboard_argv g) = None" "auto_type (CONFIG g)"
    using that by (subst (1 2) D) (simp split: option.splits)
  have sub: "set ?D \<subseteq> set (new_effects w w')"
    by (auto simp: new)
  from t ne sp 1 2 3 sub show ?thesis by blast
qed

theorem whitespace_transcript_is_dispatched_witness:
  "recording (fst (recording_state default_globals))
   \<and> Transcribe 7 ''/tmp/tmpa.wav''
       \<in> set (new_effects (snd (recording_state default_globals))
                (snd (snd (stop_recording default_globals (calm_env [''  '', ''''] (Some (Inr 7)))
                             (recording_state default_globals)))))
   \<and> transcribe_result (calm_env [''  '', ''''] (Some (Inr 7))) 7 ''/tmp/tmpa.wav'' = Inr [''  '', '''']
   \<and> 2 \<le> length [''  '', '''']
   \<and> strip ''  '' = [] \<and> strip '''' = []
   \<and> spawn_error (calm_env [''  '', ''''] (Some (Inr 7))) (clipboard_argv default_globals) = None
   \<and> auto_type (CONFIG default_globals)
   \<and> transcript [''  '', ''''] = '' ''
   \<and> Piped [''xclip'', ''-selection'', ''clipboard''] '' ''
       \<in> set (new_effects (snd (recording_state default_globals))
                (snd (snd (stop_recording default_globals (calm_env [''  '', ''''] (Some (Inr 7)))
                             (recording_state default_globals)))))
   \<and> Ran [''xdotool'', ''type'', ''--clearmodifiers'', '' ''] 0
       \<in> set (new_effects (snd (recording_state default_globals))
                (snd (snd (stop_recording default_globals (calm_env [''  '', ''''] (Some (Inr 7)))
                             (recording_state default_globals)))))"
proof -
  let ?env = "calm_env [''  '', ''''] (Some (Inr 7))"
  let ?s = "recording_state default_globals"
  let ?new = "new_effects (snd ?s) (snd (snd (stop_recording default_globals ?env ?s)))"
  have st: "\<forall>s\<in>set [''  '', '''']. strip s = []"
    by (simp add: strip_def lstrip_def rstrip_def is_space_def)
  have tx: "transcript [''  '', ''''] = '' ''"
    by (simp add: transcript_def strip_def lstrip_def rstrip_def is_space_def)
  have tr: "Transcribe 7 ''/tmp/tmpa.wav'' \<in> set ?new"
    by (simp add: recording_state_value run_defs notify_effects_def tx Let_def)
  have rec: "recording (fst ?s)"
    by (simp add: recording_state_value)
  have cfg: "spawn_error ?env (clipboard_argv default_globals) = None"
    "auto_type (CONFIG default_globals)"
    "transcribe_result ?env 7 ''/tmp/tmpa.wav'' = Inr [''  '', '''']"
    "clipboard_argv default_globals = [''xclip'', ''-selection'', ''clipboard'']"
    "typing_argv default_globals '' '' = [''xdotool'', ''type'', ''--clearmodifiers'', '' '']"
    "exit_status ?env [''xdotool'', ''type'', ''--clearmodifiers'', '' ''] = 0"
    "spawn_error ?env [''xdotool'', ''type'', ''--clearmodifiers'', '' ''] = None"
    by (simp_all add: calm_env_def default_globals_def default_config_def clipboard_argv_def
          typing_argv_def)
  have nf: "SpawnFailed [''xdotool'', ''type'', ''--clearmodifiers'', '' ''] \<notin> set ?new"
    by (simp add: recording_state_value run_defs notify_effects_def tx Let_def
          clipboard_argv_def typing_argv_def)
  have run: "stop_recording default_globals ?env (fst ?s, snd ?s) =
               (fst (stop_recording default_globals ?env ?s),
                fst (snd (stop_recording default_globals ?env ?s)),
                snd (snd (stop_recording default_globals ?env ?s)))"
    by simp
  have len: "2 \<le> length [''  '', '''']" by simp
  note T = whitespace_transcript_is_dispatched[OF rec run tr cfg(3) len st]
  have p: "Piped [''xclip'', ''-selection'', ''clipboard''] '' '' \<in> set ?new"
    using T cfg(1) by (simp add: cfg(4) tx)
  have q: "Ran [''xdotool'', ''type'', ''--clearmodifiers'', '' ''] 0 \<in> set ?new"
    using T cfg(1,2) nf by (simp add: cfg(4,5,6) tx)
  have st1: "strip ''  '' = []" and st2: "strip '''' = []"
    using st by simp_all
  from rec tr cfg(3) len st1 st2 cfg(1) cfg(2) tx p q show ?thesis
    by - (intro conjI; assumption)
qed

section \<open>At most one session\<close>

lemma sessions_ok_card: "sessions_ok S es \<Longrightarrow> card S \<le> 1"
  by (cases es) simp_all

lemma sessions_ok_append:
  "sessions_ok S (es @ fs) = (sessions_ok S es \<and> sessions_ok (foldl live_step S es) fs)"
  by (induction es arbitrary: S) (auto dest: sessions_ok_card)

lemma card_set_option: "card (set_option x) \<le> Suc 0"
  by (cases x) simp_all

lemma foldl_live_after: "foldl live_step {} t = live_after t"
  by (simp add: live_after_def)

lemma sessions_ok_prefixes:
  "sessions_ok S t = (\<forall>n. card (foldl live_step S (take n t)) \<le> 1)"
proof (induction t arbitrary: S)
  case Nil
  then show ?case by simp
next
  case (Cons e es)
  show ?case
  proof
    assume a: "sessions_ok S (e # es)"
    show "\<forall>n. card (foldl live_step S (take n (e # es))) \<le> 1"
    proof
      fix n
      show "card (foldl live_step S (take n (e # es))) \<le> 1"
        using a Cons.IH[of "live_step S e"] by (cases n) simp_all
    qed
  next
    assume a: "\<forall>n. card (foldl live_step S (take n (e # es))) \<le> 1"
    have "card S \<le> 1" using a[rule_format, of 0] by simp
    moreover have "\<forall>n. card (foldl live_step (live_step S e) (take n es)) \<le> 1"
    proof
      fix n
      show "card (foldl live_step (live_step S e) (take n es)) \<le> 1"
        using a[rule_format, of "Suc n"] by simp
    qed
    ultimately show "sessions_ok S (e # es)" using Cons.IH[of "live_step S e"] by simp
  qed
qed

lemma live_step_io: "is_io e \<or> (\<exists>n. e = Unlink n) \<Longrightarrow> live_step S e = S"
  by (cases e) auto

lemma foldl_live_step_still:
  "\<forall>e\<in>set es. live_step S e = S \<Longrightarrow> foldl live_step S es = S"
  by (induction es) simp_all

lemma sessions_ok_still:
  "\<forall>e\<in>set es. live_step S e = S \<Longrightarrow> sessions_ok S es = (card S \<le> 1)"
  by (induction es) auto

lemma live_after_append: "live_after (t @ es) = foldl live_step (live_after t) es"
  by (simp add: live_after_def)

lemma notify_effects_still: "e \<in> set (notify_effects g env t m i n) \<Longrightarrow> live_step S e = S"
  using notify_effects_cases[of g env t m i n] by auto

text \<open>A call that only adds effects touching no capture process keeps the invariant.\<close>

lemma one_session_still:
  assumes "one_session (d, w)" and "trace w' = trace w @ es"
    and "\<forall>e\<in>set es. live_step (procs w) e = procs w"
    and "procs w' = procs w" and "record_process d' = record_process d"
    and "recording d' \<or> record_process d = None"
  shows "one_session (d', w')"
  using assms
  by (auto simp: one_session_def sessions_ok_append live_after_append foldl_live_after
        foldl_live_step_still sessions_ok_still card_set_option dest: sessions_ok_card)

lemma load_step_one_session:
  assumes "one_session s"
  shows "one_session (load_step g env s)"
proof -
  obtain d w where s: "s = (d, w)" by (cases s)
  obtain d' w' where r: "load_step g env (d, w) = (d', w')" by (cases "load_step g env (d, w)")
  have "\<exists>es. trace w' = trace w @ es \<and> (\<forall>e\<in>set es. \<exists>x. e = Print x)"
    using r
    by (auto simp: load_step_def emit_def Let_def
          split: loader_pc.splits option.splits sum.splits if_splits)
  then obtain es where es: "trace w' = trace w @ es" "\<forall>e\<in>set es. \<exists>x. e = Print x" by blast
  have st: "\<forall>e\<in>set es. live_step (procs w) e = procs w"
    using es(2) by auto
  have same: "procs w' = procs w" "record_process d' = record_process d" "recording d' = recording d"
    using r
    by (auto simp: load_step_def emit_def Let_def
          split: loader_pc.splits option.splits sum.splits if_splits)
  have "recording d' \<or> record_process d = None"
    using assms same by (auto simp: s one_session_def)
  from one_session_still[OF assms[unfolded s] es(1) st same(1,2) this]
  show ?thesis by (simp add: s r)
qed

lemma start_recording_one_session:
  assumes "one_session s"
  shows "one_session (snd (start_recording g env s))"
proof -
  obtain d w where s: "s = (d, w)" by (cases s)
  note inv = assms[unfolded s]
  show ?thesis
  proof (cases "recording d \<or> truthy (model_error d)")
    case True
    then show ?thesis using inv by (simp add: s start_recording_def)
  next
    case False
    then have idle: "record_process d = None" "procs w = {}" "live_after (trace w) = {}"
      "sessions_ok {} (trace w)"
      using inv by (auto simp: one_session_def)
    show ?thesis
    proof (cases "mktemp env")
      case (Inl e)
      then have "snd (start_recording g env (d, w)) = (d\<lparr>recording := True\<rparr>, w)"
        using False by (simp add: start_recording_def)
      then show ?thesis using inv by (simp add: s one_session_def)
    next
      case (Inr name)
      show ?thesis
      proof (cases "spawn_error env (arecord_argv name)")
        case (Some e)
        let ?d' = "d\<lparr>recording := True, temp_file := Some name\<rparr>"
        let ?w' = "w\<lparr>files := insert name (files w),
                     trace := trace w @ [MkTemp name, SpawnFailed (arecord_argv name)]\<rparr>"
        have "snd (start_recording g env (d, w)) = (?d', ?w')"
          using False Inr Some by (simp add: start_recording_def Let_def emit_def)
        moreover have "one_session (?d', ?w')"
          using idle
          by (simp add: one_session_def sessions_ok_append live_after_append foldl_live_after)
        ultimately show ?thesis by (simp add: s)
      next
        case None
        let ?pid = "next_pid w"
        let ?nfx = "notify_effects g env ''Recording...''
                      (''Release '' @ upper (key (CONFIG g)) @ '' when done'')
                      ''audio-input-microphone'' 30000"
        let ?d' = "d\<lparr>recording := True, temp_file := Some name, record_process := Some ?pid\<rparr>"
        let ?w' = "w\<lparr>files := insert name (files w), procs := insert ?pid (procs w),
                     next_pid := Suc ?pid,
                     trace := trace w @ [MkTemp name, Popen (arecord_argv name) ?pid,
                                         Print ''Recording...''] @ ?nfx\<rparr>"
        have "snd (start_recording g env (d, w)) = (?d', ?w')"
          using False Inr None
          by (simp add: start_recording_def Let_def emit_def notify_result)
        moreover have "one_session (?d', ?w')"
        proof -
          have st: "\<forall>e\<in>set ?nfx. live_step {?pid} e = {?pid}"
            by (simp add: notify_effects_still)
          show ?thesis
            using idle st
            by (simp add: one_session_def sessions_ok_append live_after_append foldl_live_after
                  foldl_live_step_still sessions_ok_still)
        qed
        ultimately show ?thesis by (simp add: s)
      qed
    qed
  qed
qed

lemma stop_recording_one_session:
  assumes "one_session s"
  shows "one_session (snd (stop_recording g env s))"
proof -
  obtain d w where s: "s = (d, w)" by (cases s)
  note inv = assms[unfolded s]
  show ?thesis
  proof (cases "recording d")
    case False
    then show ?thesis using inv by (simp add: s stop_recording_def)
  next
    case True
    obtain r d' w' where run: "stop_recording g env (d, w) = (r, d', w')"
      by (cases "stop_recording g env (d, w)") auto
    let ?sfx = "stop_capture_effects (record_process d)"
    let ?nfx = "notify_effects g env ''Transcribing...'' ''Processing your speech''
                  ''emblem-synchronizing'' 30000"
    from stop_recording_shape[OF True run]
    obtain rest where sh: "trace w' = trace w @ ?sfx @ Print ''Transcribing...'' # ?nfx @ rest"
      "rest = [] \<or> (\<exists>es. rest = AwaitModel # es \<and> (\<forall>e\<in>set es. is_io e \<or> (\<exists>n. e = Unlink n)))"
      "procs w' = procs w - set_option (record_process d)"
      "\<not> recording d'" "record_process d' = None"
      by blast
    have inv': "sessions_ok {} (trace w)" "live_after (trace w) = procs w"
      "procs w = set_option (record_process d)"
      using inv by (simp_all add: one_session_def)
    have after: "foldl live_step (procs w) ?sfx = {}" "sessions_ok (procs w) ?sfx"
      using inv'(3) by (cases "record_process d"; simp add: stop_capture_effects_def)+
    let ?tail = "Print ''Transcribing...'' # ?nfx @ rest"
    have still: "\<forall>e\<in>set ?tail. live_step {} e = {}"
    proof
      fix e
      assume "e \<in> set ?tail"
      then consider "e = Print ''Transcribing...''" | "e \<in> set ?nfx" | "e \<in> set rest"
        by auto
      then show "live_step {} e = {}"
      proof cases
        case 1
        then show ?thesis by simp
      next
        case 2
        then show ?thesis by (rule notify_effects_still)
      next
        case 3
        with sh(2) obtain es where "rest = AwaitModel # es"
          "\<forall>e\<in>set es. is_io e \<or> (\<exists>n. e = Unlink n)"
          by auto
        with 3 have "e = AwaitModel \<or> is_io e \<or> (\<exists>n. e = Unlink n)" by auto
        then show ?thesis using live_step_io[of e "{}"] by auto
      qed
    qed
    have tr: "trace w' = trace w @ ?sfx @ ?tail" using sh(1) by simp
    have 1: "sessions_ok {} (trace w')"
      unfolding tr
      using inv'(1,2) after sessions_ok_still[OF still]
      by (simp add: sessions_ok_append foldl_live_after)
    have 2: "live_after (trace w') = {}"
      unfolding tr
      using inv'(2) after(1) foldl_live_step_still[OF still]
      by (simp add: live_after_append)
    have 3: "procs w' = {}" using sh(3) inv'(3) by simp
    have "one_session (d', w')"
      using 1 2 3 sh(5) by (simp add: one_session_def)
    then show ?thesis by (simp add: s run)
  qed
qed

lemma deliver_one_session: "one_session s \<Longrightarrow> one_session (deliver g ev s)"
  by (cases ev; cases "fst ev")
     (simp_all add: deliver_def start_recording_one_session stop_recording_one_session
        load_step_one_session)

lemma run_events_one_session: "one_session s \<Longrightarrow> one_session (run_events g evs s)"
  unfolding run_events_def
  by (induction evs arbitrary: s) (simp_all add: deliver_one_session)

lemma init_one_session: "one_session (init_dictation, init_world g)"
  by (simp add: one_session_def init_dictation_def init_world_def live_after_def)

text \<open>
  C2. Whatever hotkey edges (and loader steps) are delivered to a fresh controller, in
  whatever order and whatever the surroundings answer: at every point of the run at most
  one capture process is alive; the processes alive at the end are exactly the one the
  object holds a handle of, if any; a handle is held only while the recording flag is
  set; and a Down edge that arrives while the flag is set changes nothing, so it creates
  no second session.
\<close>

theorem at_most_one_session:
  assumes "run_events g evs (init_dictation, init_world g) = (d, w)"
  shows "(\<forall>n. card (live_after (take n (trace w))) \<le> 1)
    \<and> live_after (trace w) = procs w
    \<and> procs w = set_option (record_process d)
    \<and> card (procs w) \<le> 1
    \<and> (recording d \<or> record_process d = None)
    \<and> (recording d \<longrightarrow> start_recording g env (d, w) = (Returned, d, w))"
proof -
  have "one_session (run_events g evs (init_dictation, init_world g))"
    by (rule run_events_one_session[OF init_one_session])
  then have inv: "sessions_ok {} (trace w)" "live_after (trace w) = procs w"
    "procs w = set_option (record_process d)" "recording d \<or> record_process d = None"
    by (simp_all add: assms one_session_def)
  have 1: "\<forall>n. card (live_after (take n (trace w))) \<le> 1"
    using inv(1) by (simp add: sessions_ok_prefixes foldl_live_after)
  have 2: "card (procs w) \<le> 1"
    using inv(3) card_set_option[of "record_process d"] by simp
  have 3: "start_recording g env (d, w) = (Returned, d, w)" if "recording d"
    using that by (simp add: start_recording_def)
  from 1 2 3 inv(2,3,4) show ?thesis by blast
qed

theorem at_most_one_session_witness:
  "run_events default_globals [(Down, calm_env [] None), (Down, calm_env [] None)]
     (init_dictation, init_world default_globals) = recording_state default_globals
   \<and> recording (fst (recording_state default_globals))
   \<and> start_recording default_globals (calm_env [] None)
        (fst (recording_state default_globals), snd (recording_state default_globals))
       = (Returned, fst (recording_state default_globals), snd (recording_state default_globals))
   \<and> procs (snd (recording_state default_globals)) = {0}
   \<and> record_process (fst (recording_state default_globals)) = Some 0
   \<and> card (live_after (take 3 (trace (snd (recording_state default_globals))))) \<le> 1"
proof -
  let ?s = "recording_state default_globals"
  have rec: "recording (fst ?s)"
    by (simp add: recording_state_value)
  have again: "start_recording default_globals (calm_env [] None) ?s = (Returned, ?s)"
    using rec by (cases ?s) (simp add: start_recording_def)
  have run: "run_events default_globals [(Down, calm_env [] None), (Down, calm_env [] None)]
     (init_dictation, init_world default_globals) = (fst ?s, snd ?s)"
    using again by (simp add: recording_state_def run_events_def deliver_def)
  note T = at_most_one_session[OF run, of "calm_env [] None"]
  have p: "procs (snd ?s) = {0}" "record_process (fst ?s) = Some 0"
    by (simp_all add: recording_state_value)
  from T have c: "card (live_after (take 3 (trace (snd ?s)))) \<le> 1" by blast
  from T rec have s: "start_recording default_globals (calm_env [] None) (fst ?s, snd ?s)
       = (Returned, fst ?s, snd ?s)" by blast
  from run rec s p c show ?thesis by simp
qed

section \<open>The wait for the model, against every interleaving with the loader\<close>




lemma init_loader_consistent: "loader_consistent (init_dictation, init_world g)"
  by (simp add: loader_consistent_def init_dictation_def init_world_def)











end
